theory Spec2Isabelle
  imports Main
begin

section \<open>Strings, JSON values and exceptions\<close>

text \<open>
  A Python \<open>str\<close> is the list of its Unicode code points, a JavaScript string the list of
  its UTF-16 code units; \<open>len\<close> and \<open>.length\<close> count exactly these. ASCII text of the
  source is written \<open>lit ''...''\<close>.
\<close>

type_synonym pystr = "nat list"
type_synonym jsstr = "nat list"

definition lit :: "string \<Rightarrow> pystr" where
  "lit s = map of_char s"

text \<open>Python's \<open>s * n\<close>.\<close>

definition times :: "pystr \<Rightarrow> nat \<Rightarrow> pystr" where
  "times s n = concat (replicate n s)"

text \<open>\<open>str\<close> of an int, as an f-string and a template print it.\<close>

fun digits :: "nat \<Rightarrow> pystr" where
  "digits n = (if n < 10 then [48 + n] else digits (n div 10) @ [48 + n mod 10])"

declare digits.simps [simp del]

definition str_int :: "int \<Rightarrow> pystr" where
  "str_int n = (if n < 0 then 45 # digits (nat (- n)) else digits (nat n))"

text \<open>The values of Python's \<open>float\<close> are kept abstract: no arithmetic on them is modelled.\<close>

typedecl pyfloat

text \<open>
  What \<open>json.load\<close> returns and \<open>json.dump\<close> accepts. An object keeps its members in
  file order; Python's \<open>dict\<close> lets the last one of a repeated key win.
\<close>

datatype json =
    JNull
  | JBool bool
  | JInt int
  | JFloat pyfloat
  | JStr pystr
  | JArr "json list"
  | JObj "(pystr \<times> json) list"

type_synonym pydict = "pystr \<rightharpoonup> json"

text \<open>
  An exception in flight, with \<open>str(e)\<close>. \<open>PlaywrightTimeout\<close> is the one class the
  scraper names; \<open>NonException\<close> stands for the \<open>BaseException\<close>s that are no
  \<open>Exception\<close> (\<open>KeyboardInterrupt\<close>, \<open>CancelledError\<close>), which only a bare
  \<open>except:\<close> catches.
\<close>

datatype exn =
    PlaywrightTimeout pystr
  | OtherException pystr
  | NonException pystr

fun str_exn :: "exn \<Rightarrow> pystr" where
  "str_exn (PlaywrightTimeout m) = m"
| "str_exn (OtherException m) = m"
| "str_exn (NonException m) = m"

fun is_Exception :: "exn \<Rightarrow> bool" where
  "is_Exception (NonException m) = False"
| "is_Exception e = True"

text \<open>Sequencing of calls that may raise: the first exception ends the sequence.\<close>

definition after :: "exn option \<Rightarrow> (exn + 'a) \<Rightarrow> exn + 'a" where
  "after r k = (case r of Some e \<Rightarrow> Inl e | None \<Rightarrow> k)"

definition with_result :: "(exn + 'a) \<Rightarrow> ('a \<Rightarrow> exn + 'b) \<Rightarrow> exn + 'b" where
  "with_result r k = (case r of Inl e \<Rightarrow> Inl e | Inr v \<Rightarrow> k v)"

text \<open>
  Standard output: what \<open>print\<close> of one line does, \<open>None\<close> when the line is written,
  the exception otherwise (a stream that cannot encode the line, a closed stream). The
  lines one run prints differ from each other, so this describes any run.
\<close>

type_synonym stdout = "pystr \<Rightarrow> exn option"

section \<open>The Fetcher: \<open>scripts/threads_scraper.py\<close>\<close>

subsection \<open>The browser page\<close>

text \<open>
  One run makes a fixed sequence of calls on the page, so the page is described by what
  each call answers: \<open>None\<close> or \<open>Inr v\<close> when it returns, the exception when it raises.
  Calls made inside a loop are indexed by the iteration.
\<close>

record page =
  pg_goto :: "exn option"
  pg_is_visible :: "nat \<Rightarrow> exn + bool"
  pg_click :: "nat \<Rightarrow> exn option"
  pg_wait_networkidle :: "exn option"
  pg_screenshot_before :: "exn option"
  pg_scroll_to_bottom :: "nat \<Rightarrow> exn option"
  pg_wait_for_timeout :: "nat \<Rightarrow> exn option"
  pg_scroll_height :: "nat \<Rightarrow> exn + int"
  pg_screenshot_after :: "exn option"
  pg_title :: "exn + pystr"
  pg_url :: pystr
  pg_inner_texts :: "exn + jsstr option list"
  pg_content :: "exn + pystr"
  pg_screenshot_error :: "exn option"

subsection \<open>\<open>CONFIG\<close>\<close>

definition CONFIG_timeout :: int where "CONFIG_timeout = 60000"
definition CONFIG_max_scrolls :: int where "CONFIG_max_scrolls = 5"
definition CONFIG_scroll_pause_ms :: int where "CONFIG_scroll_pause_ms = 2000"

subsection \<open>\<open>handle_popups\<close>\<close>

definition popup_selectors :: "pystr list" where
  "popup_selectors =
     [lit ''button[aria-label=\"Close\"]'',
      lit ''[data-testid=\"close-button\"]'',
      lit ''button:has-text(\"Not now\")'',
      lit ''button:has-text(\"Accept\")'',
      lit ''button:has-text(\"'' @ [54869, 51064] @ lit ''\")'',
      lit ''[role=\"dialog\"] button'']"

text \<open>
  Every selector is tried; whatever a try raises (the visibility check, the click, the
  pause after it) is swallowed by the bare \<open>except\<close>. The result is the list of the
  selectors that were clicked.
\<close>

fun handle_popups_loop :: "page \<Rightarrow> nat list \<Rightarrow> nat list" where
  "handle_popups_loop pg [] = []"
| "handle_popups_loop pg (k # ks) =
     (case pg_is_visible pg k of
        Inr True \<Rightarrow>
          (case pg_click pg k of
             None \<Rightarrow> k # handle_popups_loop pg ks
           | Some e \<Rightarrow> handle_popups_loop pg ks)
      | Inr False \<Rightarrow> handle_popups_loop pg ks
      | Inl e \<Rightarrow> handle_popups_loop pg ks)"

definition handle_popups :: "page \<Rightarrow> nat list" where
  "handle_popups pg = handle_popups_loop pg [0 ..< length popup_selectors]"

subsection \<open>\<open>scroll_for_content\<close>\<close>

text \<open>The two lines the loop prints in iteration \<open>i\<close>; the first starts with U+2713.\<close>

definition content_loaded_line :: "nat \<Rightarrow> pystr" where
  "content_loaded_line i =
     [10003] @ lit '' Content loaded after '' @ str_int (int i + 1) @ lit '' scrolls''"

definition scrolling_line :: "nat \<Rightarrow> int \<Rightarrow> pystr" where
  "scrolling_line i max_scrolls =
     lit ''Scrolling... '' @ str_int (int i + 1) @ lit ''/'' @ str_int max_scrolls"

text \<open>What the loop does, in order: the calls on the page that were made and the lines printed.\<close>

datatype scroll_event =
    ScrollToBottom
  | WaitForTimeout int
  | Measured int
  | Printed pystr

datatype loop_exit =
    RangeExhausted
  | Break
  | Raised exn

text \<open>
  The body of \<open>for i in range(max_scrolls)\<close> over the remaining indices, with the
  current \<open>prev_height\<close>. Each call on the page and each \<open>print\<close> may raise, which
  ends the loop.
\<close>

fun scroll_loop ::
  "page \<Rightarrow> stdout \<Rightarrow> int \<Rightarrow> int \<Rightarrow> int \<Rightarrow> nat list \<Rightarrow> scroll_event list \<times> loop_exit" where
  "scroll_loop pg out max_scrolls pause_ms prev_height [] = ([], RangeExhausted)"
| "scroll_loop pg out max_scrolls pause_ms prev_height (i # rest) =
     (case pg_scroll_to_bottom pg i of
        Some e \<Rightarrow> ([ScrollToBottom], Raised e)
      | None \<Rightarrow>
     (case pg_wait_for_timeout pg i of
        Some e \<Rightarrow> ([ScrollToBottom, WaitForTimeout pause_ms], Raised e)
      | None \<Rightarrow>
     (case pg_scroll_height pg i of
        Inl e \<Rightarrow> ([ScrollToBottom, WaitForTimeout pause_ms], Raised e)
      | Inr new_height \<Rightarrow>
          if new_height = prev_height
          then
            (case out (content_loaded_line i) of
               Some e \<Rightarrow>
                 ([ScrollToBottom, WaitForTimeout pause_ms, Measured new_height], Raised e)
             | None \<Rightarrow>
                 ([ScrollToBottom, WaitForTimeout pause_ms, Measured new_height,
                   Printed (content_loaded_line i)], Break))
          else
            (case out (scrolling_line i max_scrolls) of
               Some e \<Rightarrow>
                 ([ScrollToBottom, WaitForTimeout pause_ms, Measured new_height], Raised e)
             | None \<Rightarrow>
                 (let (evs, ex) = scroll_loop pg out max_scrolls pause_ms new_height rest
                  in ([ScrollToBottom, WaitForTimeout pause_ms, Measured new_height,
                       Printed (scrolling_line i max_scrolls)] @ evs, ex))))))"

definition scroll_for_content ::
  "page \<Rightarrow> stdout \<Rightarrow> int \<Rightarrow> int \<Rightarrow> scroll_event list \<times> loop_exit" where
  "scroll_for_content pg out max_scrolls pause_ms =
     scroll_loop pg out max_scrolls pause_ms (- 1) [0 ..< nat max_scrolls]"

text \<open>
  The iterations the loop entered: each of them starts with the call that scrolls to the
  bottom. \<open>scrolls_performed\<close> counts these calls themselves.
\<close>

definition iterations :: "scroll_event list \<times> loop_exit \<Rightarrow> nat" where
  "iterations r = length (filter (\<lambda>ev. ev = ScrollToBottom) (fst r))"

definition scrolls_performed :: "scroll_event list \<times> loop_exit \<Rightarrow> nat" where
  "scrolls_performed r = count_list (fst r) ScrollToBottom"

definition measurements :: "scroll_event list \<times> loop_exit \<Rightarrow> int list" where
  "measurements r = concat (map (\<lambda>ev. case ev of Measured h \<Rightarrow> [h] | _ \<Rightarrow> []) (fst r))"

subsection \<open>\<open>extract_content\<close>\<close>

text \<open>
  The script that \<open>page.evaluate\<close> runs in the page. \<open>String.prototype.trim\<close>
  removes the code units of ECMAScript's WhiteSpace and LineTerminator from both ends.
\<close>

definition js_whitespace :: "nat \<Rightarrow> bool" where
  "js_whitespace c \<longleftrightarrow>
     c \<in> set [9, 10, 11, 12, 13, 32, 160, 5760, 8232, 8233, 8239, 8287, 12288, 65279]
     \<or> (8192 \<le> c \<and> c \<le> 8202)"

definition js_trim :: "jsstr \<Rightarrow> jsstr" where
  "js_trim s = rev (dropWhile js_whitespace (rev (dropWhile js_whitespace s)))"

text \<open>
  \<open>forEach\<close> over the elements that match \<open>[data-pressable-container]\<close>, in document
  order, each given by its \<open>innerText\<close> (\<open>None\<close> when it has none); \<open>posts\<close> is the
  array built so far.
\<close>

fun posts_for_each :: "jsstr option list \<Rightarrow> jsstr list \<Rightarrow> jsstr list" where
  "posts_for_each [] posts = posts"
| "posts_for_each (el # els) posts =
     (case el of
        None \<Rightarrow> posts_for_each els posts
      | Some inner_text \<Rightarrow>
          (let text = js_trim inner_text
           in if text \<noteq> [] \<and> length text > 10
              then posts_for_each els (posts @ [take 500 text])
              else posts_for_each els posts))"

definition posts_script :: "jsstr option list \<Rightarrow> jsstr list" where
  "posts_script els = take 50 (posts_for_each els [])"

text \<open>
  The strings come back to Python as \<open>str\<close>: a surrogate pair of code units is one
  code point, every other code unit is one code point of its own.
\<close>

fun from_js :: "jsstr \<Rightarrow> pystr" where
  "from_js (hi # lo # rest) =
     (if 55296 \<le> hi \<and> hi < 56320 \<and> 56320 \<le> lo \<and> lo < 57344
      then (65536 + (hi - 55296) * 1024 + (lo - 56320)) # from_js rest
      else hi # from_js (lo # rest))"
| "from_js s = s"

text \<open>\<open>now\<close> is what \<open>datetime.now(timezone.utc).isoformat()\<close> gives at the call.\<close>

definition extract_content :: "page \<Rightarrow> pystr \<Rightarrow> exn + pydict" where
  "extract_content pg now =
     with_result (pg_title pg) (\<lambda>title.
     let url = pg_url pg in
     with_result (pg_inner_texts pg) (\<lambda>els.
     let content = map from_js (posts_script els) in
     with_result (pg_content pg) (\<lambda>html.
     Inr [lit ''url'' \<mapsto> JStr url,
          lit ''title'' \<mapsto> JStr title,
          lit ''scraped_at'' \<mapsto> JStr now,
          lit ''posts_count'' \<mapsto> JInt (int (length content)),
          lit ''posts'' \<mapsto> JArr (map JStr content),
          lit ''html_length'' \<mapsto> JInt (int (length html))])))"

subsection \<open>\<open>main\<close>\<close>

text \<open>
  Everything outside the page that one run of \<open>main\<close> meets: \<open>CONFIG['url']\<close>, the
  two clocks, standard output, and what each call on the file system and on Playwright
  answers.
\<close>

record env =
  env_target_url :: pystr
  env_stdout :: stdout
  env_mkdir_output :: "exn option"
  env_mkdir_screenshots :: "exn option"
  env_timestamp :: pystr
  env_playwright_start :: "exn option"
  env_create_browser_context :: "exn option"
  env_new_page :: "exn option"
  env_page :: page
  env_now_utc :: pystr
  env_browser_close :: "exn option"
  env_playwright_stop :: "exn option"
  env_write_output :: "exn option"
  env_write_latest :: "exn option"

definition output_file :: "env \<Rightarrow> pystr" where
  "output_file env = lit ''output/threads_'' @ env_timestamp env @ lit ''.json''"

definition latest_file :: pystr where
  "latest_file = lit ''output/latest.json''"

text \<open>
  The lines \<open>main\<close> prints. Two start with U+2713 and one with U+2717;
  \<open>data['posts_count']\<close> is the int that \<open>extract_content\<close> put there.
\<close>

definition navigating_line :: "env \<Rightarrow> pystr" where
  "navigating_line env = lit ''Navigating to: '' @ env_target_url env"

definition network_idle_line :: pystr where
  "network_idle_line = lit ''Network idle timeout - continuing with available content''"

definition extracted_line :: "pydict \<Rightarrow> pystr" where
  "extracted_line data =
     [10003] @ lit '' Extracted '' @
     (case data (lit ''posts_count'') of Some (JInt n) \<Rightarrow> str_int n | other \<Rightarrow> []) @
     lit '' posts''"

definition error_line :: "exn \<Rightarrow> pystr" where
  "error_line e = [10007] @ lit '' Error: '' @ str_exn e"

definition saved_line :: "env \<Rightarrow> pystr" where
  "saved_line env = [10003] @ lit '' Results saved to: '' @ output_file env"

text \<open>
  The wait for network idle: \<open>except PlaywrightTimeout\<close> catches only that class and
  prints a line, which may raise in its turn.
\<close>

definition wait_for_networkidle :: "env \<Rightarrow> exn option" where
  "wait_for_networkidle env =
     (case pg_wait_networkidle (env_page env) of
        Some (PlaywrightTimeout m) \<Rightarrow> env_stdout env network_idle_line
      | other \<Rightarrow> other)"

fun scroll_raised :: "scroll_event list \<times> loop_exit \<Rightarrow> exn option" where
  "scroll_raised (evs, Raised e) = Some e"
| "scroll_raised (evs, ex) = None"

text \<open>
  The body of the \<open>try\<close>, to its last line, the \<open>print\<close> of the number of posts.
  \<open>handle_popups\<close> cannot raise and leaves no data behind.
\<close>

definition try_body :: "env \<Rightarrow> exn + pydict" where
  "try_body env =
     (let page = env_page env in
      after (pg_goto page)
     (after (wait_for_networkidle env)
     (after (pg_screenshot_before page)
     (after (scroll_raised
        (scroll_for_content page (env_stdout env) CONFIG_max_scrolls CONFIG_scroll_pause_ms))
     (after (pg_screenshot_after page)
     (with_result (extract_content page (env_now_utc env)) (\<lambda>extracted.
      let data = extracted(lit ''status'' \<mapsto> JStr (lit ''success''))
      in after (env_stdout env (extracted_line data)) (Inr data))))))))"

text \<open>
  The handler of \<open>except Exception as e\<close>: it prints the error line, which may raise, then
  builds the record. The error screenshot it tries last sits in a bare \<open>except\<close> of its
  own, so \<open>pg_screenshot_error\<close> changes nothing.
\<close>

definition error_data :: "env \<Rightarrow> exn \<Rightarrow> pydict" where
  "error_data env e =
     [lit ''url'' \<mapsto> JStr (env_target_url env),
      lit ''scraped_at'' \<mapsto> JStr (env_now_utc env),
      lit ''status'' \<mapsto> JStr (lit ''error''),
      lit ''error'' \<mapsto> JStr (str_exn e)]"

definition try_except :: "env \<Rightarrow> exn + pydict" where
  "try_except env =
     (case try_body env of
        Inr data \<Rightarrow> Inr data
      | Inl e \<Rightarrow>
          if is_Exception e
          then after (env_stdout env (error_line e)) (Inr (error_data env e))
          else Inl e)"

text \<open>
  The \<open>async with\<close> block: the browser and the page are set up, the target is printed,
  and the \<open>try\<close> statement runs with its \<open>finally\<close>, which closes the browser; then
  Playwright stops. An exception of the closing or the stopping replaces what was left
  before.
\<close>

definition with_playwright :: "env \<Rightarrow> exn + pydict" where
  "with_playwright env =
     after (env_playwright_start env)
       (let body =
          after (env_create_browser_context env)
         (after (env_new_page env)
         (after (env_stdout env (navigating_line env))
           (case env_browser_close env of
              Some e \<Rightarrow> Inl e
            | None \<Rightarrow> try_except env)))
        in case env_playwright_stop env of
             Some e \<Rightarrow> Inl e
           | None \<Rightarrow> body)"

text \<open>
  \<open>main\<close> gives the JSON files it wrote, in order, each with the record dumped into it,
  and either the record it returns or the exception that leaves it.
\<close>

definition main :: "env \<Rightarrow> (pystr \<times> pydict) list \<times> (exn + pydict)" where
  "main env =
     (case after (env_mkdir_output env) (after (env_mkdir_screenshots env) (with_playwright env)) of
        Inl e \<Rightarrow> ([], Inl e)
      | Inr data \<Rightarrow>
          (case env_write_output env of
             Some e \<Rightarrow> ([], Inl e)
           | None \<Rightarrow>
          (case env_write_latest env of
             Some e \<Rightarrow> ([(output_file env, data)], Inl e)
           | None \<Rightarrow>
          (case env_stdout env (saved_line env) of
             Some e \<Rightarrow> ([(output_file env, data), (latest_file, data)], Inl e)
           | None \<Rightarrow> ([(output_file env, data), (latest_file, data)], Inr data)))))"



section \<open>The Reporter: \<open>scripts/generate_report.py\<close>\<close>

subsection \<open>Python and Jinja2 values\<close>

text \<open>The exception classes the Reporter can meet.\<close>

datatype pyerr =
    TypeError
  | KeyError
  | ValueError
  | OverflowError
  | UndefinedError
  | FileExistsError
  | FileNotFoundError
  | IsADirectoryError
  | PermissionError
  | UnicodeEncodeError
  | OSError

definition and_then :: "(pyerr + 'a) \<Rightarrow> ('a \<Rightarrow> pyerr + 'b) \<Rightarrow> pyerr + 'b" where
  "and_then r k = (case r of Inl e \<Rightarrow> Inl e | Inr v \<Rightarrow> k v)"

text \<open>
  The parts of Python's library that are taken as they are, not computed here: \<open>repr\<close>
  of a list or a dict, \<open>str\<close> of a float, \<open>str.upper\<close> of text beyond ASCII,
  \<open>str(round(x / 1024, 1))\<close> for a float \<open>x\<close> and for an int outside \<open>0 ..< 2 ^ 53\<close>
  whose quotient is a float, and the class of the exception that slicing a dict raises
  (\<open>TypeError\<close>, and \<open>KeyError\<close> from Python 3.12 on). None of the functions raises.
\<close>

record pylib =
  lib_repr :: "json \<Rightarrow> pystr"
  lib_str_float :: "pyfloat \<Rightarrow> pystr"
  lib_upper :: "pystr \<Rightarrow> pystr"
  lib_kb_float :: "pyfloat \<Rightarrow> pystr"
  lib_kb_int :: "int \<Rightarrow> pystr"
  lib_slice_of_dict :: pyerr

fun py_str :: "pylib \<Rightarrow> json \<Rightarrow> pystr" where
  "py_str lib JNull = lit ''None''"
| "py_str lib (JBool b) = (if b then lit ''True'' else lit ''False'')"
| "py_str lib (JInt n) = str_int n"
| "py_str lib (JFloat x) = lib_str_float lib x"
| "py_str lib (JStr s) = s"
| "py_str lib (JArr xs) = lib_repr lib (JArr xs)"
| "py_str lib (JObj kvs) = lib_repr lib (JObj kvs)"

definition py_upper :: "pylib \<Rightarrow> pystr \<Rightarrow> pystr" where
  "py_upper lib s =
     (if list_all (\<lambda>c. c < 128) s
      then map (\<lambda>c. if 97 \<le> c \<and> c \<le> 122 then c - 32 else c) s
      else lib_upper lib s)"

text \<open>
  A name of the template is looked up in the context: \<open>None\<close> is Jinja2's \<open>Undefined\<close>,
  which prints as the empty string, has length 0, is equal to no string, and raises when
  it is divided or subscripted.
\<close>

definition jinja_print :: "pylib \<Rightarrow> json option \<Rightarrow> pystr" where
  "jinja_print lib x = (case x of None \<Rightarrow> [] | Some v \<Rightarrow> py_str lib v)"

definition jinja_upper :: "pylib \<Rightarrow> json option \<Rightarrow> pystr" where
  "jinja_upper lib x = py_upper lib (jinja_print lib x)"

text \<open>
  \<open>(html_length / 1024) | round(1)\<close>, printed. The division of an int gives the nearest
  float and raises \<open>OverflowError\<close> when that would be \<open>2 ^ 1024\<close> or more in size,
  which is from \<open>2 ^ 1034 - 2 ^ 980\<close> on. For an int \<open>n\<close> in \<open>0 ..< 2 ^ 53\<close> the
  quotient is a float without rounding error, \<open>round\<close> takes it to the nearest tenth, a
  tie to the even one, and \<open>str\<close> prints the tenths with one digit after the point.
\<close>

definition round_half_even :: "int \<Rightarrow> int \<Rightarrow> int" where
  "round_half_even a b =
     (let q = a div b; r = a mod b
      in if 2 * r < b then q
         else if 2 * r > b then q + 1
         else if even q then q else q + 1)"

definition kb_int :: "pylib \<Rightarrow> int \<Rightarrow> pyerr + pystr" where
  "kb_int lib n =
     (if 2 ^ 1034 - 2 ^ 980 \<le> \<bar>n\<bar> then Inl OverflowError
      else if 0 \<le> n \<and> n < 2 ^ 53
      then (let tenths = round_half_even (n * 10) 1024
            in Inr (str_int (tenths div 10) @ lit ''.'' @ str_int (tenths mod 10)))
      else Inr (lib_kb_int lib n))"

fun jinja_kb :: "pylib \<Rightarrow> json option \<Rightarrow> pyerr + pystr" where
  "jinja_kb lib None = Inl UndefinedError"
| "jinja_kb lib (Some (JInt n)) = kb_int lib n"
| "jinja_kb lib (Some (JBool b)) = kb_int lib (if b then 1 else 0)"
| "jinja_kb lib (Some (JFloat x)) = Inr (lib_kb_float lib x)"
| "jinja_kb lib (Some v) = Inl TypeError"

text \<open>
  A slice in a template is Python's own subscript. \<open>for post in posts[:n]\<close> runs over
  the first \<open>n\<close> entries of a list and the first \<open>n\<close> characters of a string; any other
  value raises.
\<close>

fun jinja_slice_items :: "pylib \<Rightarrow> json option \<Rightarrow> nat \<Rightarrow> pyerr + json list" where
  "jinja_slice_items lib None n = Inl UndefinedError"
| "jinja_slice_items lib (Some (JArr xs)) n = Inr (take n xs)"
| "jinja_slice_items lib (Some (JStr s)) n = Inr (map (\<lambda>c. JStr [c]) (take n s))"
| "jinja_slice_items lib (Some (JObj kvs)) n = Inl (lib_slice_of_dict lib)"
| "jinja_slice_items lib (Some v) n = Inl TypeError"

text \<open>\<open>{{ post[:n] }}\<close>, printed.\<close>

fun jinja_slice_print :: "pylib \<Rightarrow> json \<Rightarrow> nat \<Rightarrow> pyerr + pystr" where
  "jinja_slice_print lib (JStr s) n = Inr (take n s)"
| "jinja_slice_print lib (JArr xs) n = Inr (lib_repr lib (JArr (take n xs)))"
| "jinja_slice_print lib (JObj kvs) n = Inl (lib_slice_of_dict lib)"
| "jinja_slice_print lib v n = Inl TypeError"

text \<open>The \<open>length\<close> filter is \<open>len\<close>.\<close>

fun jinja_length :: "json option \<Rightarrow> pyerr + nat" where
  "jinja_length None = Inr 0"
| "jinja_length (Some (JStr s)) = Inr (length s)"
| "jinja_length (Some (JArr xs)) = Inr (length xs)"
| "jinja_length (Some (JObj kvs)) = Inr (length (remdups (map fst kvs)))"
| "jinja_length (Some v) = Inl TypeError"

text \<open>The body of a \<open>for\<close> loop, rendered for each item in turn.\<close>

fun render_each :: "('a \<Rightarrow> pyerr + pystr) \<Rightarrow> 'a list \<Rightarrow> pyerr + pystr" where
  "render_each body [] = Inr []"
| "render_each body (x # xs) =
     and_then (body x) (\<lambda>first. and_then (render_each body xs) (\<lambda>others. Inr (first @ others)))"

subsection \<open>\<open>HTML_TEMPLATE\<close>\<close>

definition nl :: pystr where
  "nl = [10]"

definition html_head :: pystr where
  "html_head =
     nl @
     lit ''<!DOCTYPE html>'' @ nl @
     lit ''<html lang=\"ko\">'' @ nl @
     lit ''<head>'' @ nl @
     lit ''    <meta charset=\"UTF-8\">'' @ nl @
     lit ''    <meta name=\"viewport\" content=\"width=device-width, initial-scale=1.0\">'' @ nl @
     lit ''    <title>Threads Crawl Report - ''"

definition html_style_and_header :: pystr where
  "html_style_and_header =
     lit ''</title>'' @ nl @
     lit ''    <style>'' @ nl @
     lit ''        body { font-family: -apple-system, BlinkMacSystemFont, 'Segoe UI', Roboto, sans-serif; max-width: 900px; margin: 0 auto; padding: 20px; background: #f5f5f5; }'' @ nl @
     lit ''        .header { background: linear-gradient(135deg, #667eea 0%, #764ba2 100%); color: white; padding: 30px; border-radius: 12px; margin-bottom: 20px; }'' @ nl @
     lit ''        .stats { display: grid; grid-template-columns: repeat(auto-fit, minmax(150px, 1fr)); gap: 15px; margin-bottom: 20px; }'' @ nl @
     lit ''        .stat-card { background: white; padding: 20px; border-radius: 8px; text-align: center; box-shadow: 0 2px 4px rgba(0,0,0,0.1); }'' @ nl @
     lit ''        .stat-value { font-size: 2em; font-weight: bold; color: #667eea; }'' @ nl @
     lit ''        .stat-label { color: #666; margin-top: 5px; }'' @ nl @
     lit ''        .posts { background: white; border-radius: 8px; padding: 20px; }'' @ nl @
     lit ''        .post { border-bottom: 1px solid #eee; padding: 15px 0; }'' @ nl @
     lit ''        .post:last-child { border-bottom: none; }'' @ nl @
     lit ''        .status-success { color: #10b981; }'' @ nl @
     lit ''        .status-error { color: #ef4444; }'' @ nl @
     lit ''        .timestamp { color: #888; font-size: 0.9em; }'' @ nl @
     lit ''    </style>'' @ nl @
     lit ''</head>'' @ nl @
     lit ''<body>'' @ nl @
     lit ''    <div class=\"header\">'' @ nl @
     lit ''        <h1>'' @ [128202] @ lit '' Threads Crawl Report</h1>'' @ nl @
     lit ''        <p class=\"timestamp\">Generated: ''"

definition html_status_card :: pystr where
  "html_status_card =
     lit ''</p>'' @ nl @
     lit ''    </div>'' @ nl @
     lit ''    '' @ nl @
     lit ''    <div class=\"stats\">'' @ nl @
     lit ''        <div class=\"stat-card\">'' @ nl @
     lit ''            <div class=\"stat-value ''"

definition html_status_value :: pystr where
  "html_status_value =
     lit ''\">'' @ nl @
     lit ''                ''"

definition html_posts_count_card :: pystr where
  "html_posts_count_card =
     nl @
     lit ''            </div>'' @ nl @
     lit ''            <div class=\"stat-label\">Status</div>'' @ nl @
     lit ''        </div>'' @ nl @
     lit ''        <div class=\"stat-card\">'' @ nl @
     lit ''            <div class=\"stat-value\">''"

definition html_page_size_card :: pystr where
  "html_page_size_card =
     lit ''</div>'' @ nl @
     lit ''            <div class=\"stat-label\">Posts Captured</div>'' @ nl @
     lit ''        </div>'' @ nl @
     lit ''        <div class=\"stat-card\">'' @ nl @
     lit ''            ''"

definition html_posts_section :: pystr where
  "html_posts_section =
     nl @
     lit ''            <div class=\"stat-label\">Page Size</div>'' @ nl @
     lit ''        </div>'' @ nl @
     lit ''    </div>'' @ nl @
     lit ''    '' @ nl @
     lit ''    <div class=\"posts\">'' @ nl @
     lit ''        <h2>'' @ [128221] @ lit '' Captured Content</h2>'' @ nl @
     lit ''        ''"

definition html_post_indent :: pystr where
  "html_post_indent =
     nl @
     lit ''        ''"

definition html_post_end :: pystr where
  "html_post_end =
     nl @
     lit ''        ''"

definition html_after_posts :: pystr where
  "html_after_posts =
     nl @
     lit ''        ''"

definition html_more_posts :: pystr where
  "html_more_posts =
     nl @
     lit ''        <p style=\"color: #888; text-align: center;\">... and ''"

definition html_more_posts_end :: pystr where
  "html_more_posts_end =
     lit '' more posts</p>'' @ nl @
     lit ''        ''"

definition html_foot :: pystr where
  "html_foot =
     nl @
     lit ''    </div>'' @ nl @
     lit ''</body>'' @ nl @
     lit ''</html>''"

text \<open>
  The template's text between its tags is copied as it is (one final newline of the
  template is dropped).
\<close>

definition html_post :: "pylib \<Rightarrow> json \<Rightarrow> pyerr + pystr" where
  "html_post lib post =
     and_then (jinja_slice_print lib post 300) (\<lambda>shown.
     and_then (jinja_length (Some post)) (\<lambda>post_length.
     Inr (html_post_indent @ lit ''<div class=\"post\">'' @
          shown @
          (if post_length > 300 then lit ''...'' else []) @
          lit ''</div>'' @ html_post_end)))"

definition render_html :: "pylib \<Rightarrow> pydict \<Rightarrow> pyerr + pystr" where
  "render_html lib ctx =
     and_then (jinja_kb lib (ctx (lit ''html_length''))) (\<lambda>kb.
     and_then (jinja_slice_items lib (ctx (lit ''posts'')) 20) (\<lambda>items.
     and_then (render_each (html_post lib) items) (\<lambda>posts_html.
     and_then (jinja_length (ctx (lit ''posts''))) (\<lambda>posts_length.
     Inr (html_head @ jinja_print lib (ctx (lit ''date'')) @
          html_style_and_header @ jinja_print lib (ctx (lit ''scraped_at'')) @
          html_status_card @
          (if ctx (lit ''status'') = Some (JStr (lit ''success''))
           then lit ''status-success'' else lit ''status-error'') @
          html_status_value @ jinja_upper lib (ctx (lit ''status'')) @
          html_posts_count_card @ jinja_print lib (ctx (lit ''posts_count'')) @
          html_page_size_card @ lit ''<div class=\"stat-value\">'' @ kb @ lit ''KB</div>'' @
          html_posts_section @ posts_html @
          html_after_posts @
          (if posts_length > 20
           then html_more_posts @ str_int (int posts_length - 20) @ html_more_posts_end
           else []) @
          html_foot)))))"

subsection \<open>\<open>MARKDOWN_TEMPLATE\<close>\<close>

definition md_head :: pystr where
  "md_head =
     lit ''# Threads Crawl Report'' @ nl @
     nl @
     lit ''**Date:** ''"

definition md_url :: pystr where
  "md_url =
     lit ''  '' @ nl @
     lit ''**URL:** ''"

definition md_status :: pystr where
  "md_status =
     lit ''  '' @ nl @
     lit ''**Status:** ''"

definition md_summary :: pystr where
  "md_summary =
     nl @
     nl @
     lit ''## Summary'' @ nl @
     nl @
     lit ''| Metric | Value |'' @ nl @
     lit ''|--------|-------|'' @ nl @
     lit ''| Posts Captured | ''"

definition md_page_size :: pystr where
  "md_page_size =
     lit '' |'' @ nl @
     lit ''| Page Size | ''"

definition md_scraped_at :: pystr where
  "md_scraped_at =
     lit '' KB |'' @ nl @
     lit ''| Scraped At | ''"

definition md_sample_content :: pystr where
  "md_sample_content =
     lit '' |'' @ nl @
     nl @
     lit ''## Sample Content'' @ nl @
     nl"

definition md_post_heading :: pystr where
  "md_post_heading =
     nl @
     lit ''### Post ''"

definition md_post_text :: pystr where
  "md_post_text =
     nl"

definition md_post_end :: pystr where
  "md_post_end =
     nl @
     nl"

definition md_foot :: pystr where
  "md_foot =
     nl @
     nl @
     lit ''---'' @ nl @
     lit ''*Report generated automatically by GitHub Actions*''"

text \<open>\<open>loop.index\<close> counts the items from 1.\<close>

definition md_post :: "pylib \<Rightarrow> nat \<times> json \<Rightarrow> pyerr + pystr" where
  "md_post lib item =
     (case item of (loop_index, post) \<Rightarrow>
        and_then (jinja_slice_print lib post 200) (\<lambda>shown.
        and_then (jinja_length (Some post)) (\<lambda>post_length.
        Inr (md_post_heading @ str_int (int loop_index) @ md_post_text @
             shown @
             (if post_length > 200 then lit ''...'' else []) @
             md_post_end))))"

definition render_markdown :: "pylib \<Rightarrow> pydict \<Rightarrow> pyerr + pystr" where
  "render_markdown lib ctx =
     and_then (jinja_kb lib (ctx (lit ''html_length''))) (\<lambda>kb.
     and_then (jinja_slice_items lib (ctx (lit ''posts'')) 10) (\<lambda>items.
     and_then (render_each (md_post lib) (zip [1 ..< Suc (length items)] items)) (\<lambda>posts_md.
     Inr (md_head @ jinja_print lib (ctx (lit ''date'')) @
          md_url @ jinja_print lib (ctx (lit ''url'')) @
          md_status @ jinja_print lib (ctx (lit ''status'')) @
          md_summary @ jinja_print lib (ctx (lit ''posts_count'')) @
          md_page_size @ kb @
          md_scraped_at @ jinja_print lib (ctx (lit ''scraped_at'')) @
          md_sample_content @ posts_md @
          md_foot))))"

subsection \<open>\<open>generate_reports\<close>\<close>

text \<open>
  \<open>template.render(**data)\<close>: the keys of \<open>data\<close> are passed as keyword arguments of
  a method whose first parameter is \<open>self\<close>, so a key of that name is a \<open>TypeError\<close>.
\<close>

definition render_kwargs :: "(pydict \<Rightarrow> pyerr + pystr) \<Rightarrow> pydict \<Rightarrow> pyerr + pystr" where
  "render_kwargs template data =
     (if data (lit ''self'') \<noteq> None then Inl TypeError else template data)"

definition setdefault :: "pydict \<Rightarrow> pystr \<Rightarrow> json \<Rightarrow> pydict" where
  "setdefault d k v = (case d k of None \<Rightarrow> d(k \<mapsto> v) | Some old \<Rightarrow> d)"

text \<open>
  The lines under \<open># Add computed fields\<close>, on what \<open>json.load\<close> returned; \<open>date\<close> is
  \<open>datetime.now().strftime('%Y-%m-%d %H:%M')\<close>. Only a dict takes the item assignment.
\<close>

definition add_computed_fields :: "pystr \<Rightarrow> json \<Rightarrow> pyerr + pydict" where
  "add_computed_fields date loaded =
     (case loaded of
        JObj kvs \<Rightarrow>
          (let data = (map_of (rev kvs))(lit ''date'' \<mapsto> JStr date);
               data = setdefault data (lit ''posts'') (JArr []);
               data = setdefault data (lit ''posts_count'') (JInt 0);
               data = setdefault data (lit ''html_length'') (JInt 0);
               data = setdefault data (lit ''status'') (JStr (lit ''unknown''))
           in Inr data)
      | other \<Rightarrow> Inl TypeError)"

text \<open>
  The file system, by path: nothing (\<open>exists()\<close> is false: no entry, or a link to
  nothing), a directory, or a file. A file holds a JSON document (given by the value
  \<open>json.load\<close> reads from it), some text that is no JSON document, or a report that was
  written.
\<close>

datatype file_content =
    JsonDoc json
  | NotJson
  | Text pystr

datatype node =
    Absent
  | Dir
  | File file_content

type_synonym fs = "pystr \<Rightarrow> node"

text \<open>
  What the operating system adds to that: for a call and a path, the exception with which
  it refuses the call for a reason outside the file system as modelled (permissions, a
  read-only or full volume, a dangling link where a directory is to be made), or \<open>None\<close>
  when it lets the call go ahead; and standard output, by the line printed.
\<close>

datatype syscall =
    Stat
  | Mkdir
  | OpenRead
  | OpenWrite

record os =
  os_refuses :: "syscall \<Rightarrow> pystr \<Rightarrow> pyerr option"
  os_stdout :: "pystr \<Rightarrow> pyerr option"

definition REPORTS_DIR :: pystr where
  "REPORTS_DIR = lit ''reports''"

definition html_file :: pystr where
  "html_file = lit ''reports/index.html''"

definition md_file :: pystr where
  "md_file = lit ''reports/report.md''"

text \<open>
  \<open>Path.mkdir(exist_ok=True)\<close>: a directory that is there is left alone, a file in
  its place is a \<open>FileExistsError\<close>, and where nothing is found the directory is made
  unless the system refuses.
\<close>

definition mkdir_exist_ok :: "os \<Rightarrow> fs \<Rightarrow> pystr \<Rightarrow> pyerr + fs" where
  "mkdir_exist_ok sys files p =
     (case files p of
        Absent \<Rightarrow>
          (case os_refuses sys Mkdir p of
             Some e \<Rightarrow> Inl e
           | None \<Rightarrow> Inr (files(p := Dir)))
      | Dir \<Rightarrow> Inr files
      | File c \<Rightarrow> Inl FileExistsError)"

definition path_exists :: "os \<Rightarrow> fs \<Rightarrow> pystr \<Rightarrow> pyerr + bool" where
  "path_exists sys files p =
     (case os_refuses sys Stat p of
        Some e \<Rightarrow> Inl e
      | None \<Rightarrow> Inr (files p \<noteq> Absent))"

definition json_load :: "os \<Rightarrow> fs \<Rightarrow> pystr \<Rightarrow> pyerr + json" where
  "json_load sys files p =
     (case files p of
        Absent \<Rightarrow> Inl FileNotFoundError
      | Dir \<Rightarrow> Inl IsADirectoryError
      | File c \<Rightarrow>
          (case os_refuses sys OpenRead p of
             Some e \<Rightarrow> Inl e
           | None \<Rightarrow> (case c of JsonDoc v \<Rightarrow> Inr v | other \<Rightarrow> Inl ValueError)))"

definition write_text :: "os \<Rightarrow> fs \<Rightarrow> pystr \<Rightarrow> pystr \<Rightarrow> pyerr + fs" where
  "write_text sys files p t =
     (case files p of
        Dir \<Rightarrow> Inl IsADirectoryError
      | other \<Rightarrow>
          (case os_refuses sys OpenWrite p of
             Some e \<Rightarrow> Inl e
           | None \<Rightarrow> Inr (files(p := File (Text t)))))"

text \<open>The lines \<open>generate_reports\<close> prints; the second starts with U+2713.\<close>

definition no_data_line :: pystr where
  "no_data_line = lit ''No data file found''"

definition generated_line :: "pystr \<Rightarrow> pystr" where
  "generated_line path = [10003] @ lit '' Generated: '' @ path"

definition print_line :: "os \<Rightarrow> pystr \<Rightarrow> pyerr + unit" where
  "print_line sys line = (case os_stdout sys line of Some e \<Rightarrow> Inl e | None \<Rightarrow> Inr ())"

text \<open>
  \<open>generate_reports\<close> gives the file system it leaves and either \<open>Inr ()\<close>, when it
  returns, or the exception that leaves it.
\<close>

definition generate_reports :: "pylib \<Rightarrow> pystr \<Rightarrow> os \<Rightarrow> fs \<Rightarrow> fs \<times> (pyerr + unit)" where
  "generate_reports lib date sys files =
     (case mkdir_exist_ok sys files REPORTS_DIR of
        Inl e \<Rightarrow> (files, Inl e)
      | Inr files1 \<Rightarrow>
     (case path_exists sys files1 latest_file of
        Inl e \<Rightarrow> (files1, Inl e)
      | Inr found \<Rightarrow>
          if \<not> found then (files1, print_line sys no_data_line)
          else
            (case and_then (json_load sys files1 latest_file) (add_computed_fields date) of
               Inl e \<Rightarrow> (files1, Inl e)
             | Inr data \<Rightarrow>
            (case render_kwargs (render_html lib) data of
               Inl e \<Rightarrow> (files1, Inl e)
             | Inr html_content \<Rightarrow>
            (case write_text sys files1 html_file html_content of
               Inl e \<Rightarrow> (files1, Inl e)
             | Inr files2 \<Rightarrow>
            (case print_line sys (generated_line html_file) of
               Inl e \<Rightarrow> (files2, Inl e)
             | Inr u \<Rightarrow>
            (case render_kwargs (render_markdown lib) data of
               Inl e \<Rightarrow> (files2, Inl e)
             | Inr md_content \<Rightarrow>
            (case write_text sys files2 md_file md_content of
               Inl e \<Rightarrow> (files2, Inl e)
             | Inr files3 \<Rightarrow> (files3, print_line sys (generated_line md_file))))))))))"

subsection \<open>Records that render\<close>

text \<open>The values a slice can be taken of: strings and lists.\<close>

fun sliceable :: "json \<Rightarrow> bool" where
  "sliceable (JStr s) = True"
| "sliceable (JArr xs) = True"
| "sliceable v = False"

text \<open>
  The values of \<open>html_length\<close> that can be divided by 1024: a float, a bool, and an int
  whose quotient is no more than a float can hold.
\<close>

fun kb_defined :: "json \<Rightarrow> bool" where
  "kb_defined (JInt n) = (\<bar>n\<bar> < 2 ^ 1034 - 2 ^ 980)"
| "kb_defined (JBool b) = True"
| "kb_defined (JFloat x) = True"
| "kb_defined v = False"

text \<open>
  The values of \<open>posts\<close> the templates can show: a string, or a list whose first 20
  entries (the ones the loops reach) are strings or lists.
\<close>

fun posts_defined :: "json \<Rightarrow> bool" where
  "posts_defined (JArr xs) = list_all sliceable (take 20 xs)"
| "posts_defined (JStr s) = True"
| "posts_defined v = False"

definition renderable :: "pydict \<Rightarrow> bool" where
  "renderable d \<longleftrightarrow>
     d (lit ''self'') = None
     \<and> (case d (lit ''html_length'') of None \<Rightarrow> True | Some v \<Rightarrow> kb_defined v)
     \<and> (case d (lit ''posts'') of None \<Rightarrow> True | Some v \<Rightarrow> posts_defined v)"

section \<open>Example pages and environments\<close>

text \<open>A page on which every call returns, with no post on it and a height that never changes.\<close>

definition quiet_page :: page where
  "quiet_page =
     \<lparr>pg_goto = None,
      pg_is_visible = (\<lambda>k. Inr False),
      pg_click = (\<lambda>k. None),
      pg_wait_networkidle = None,
      pg_screenshot_before = None,
      pg_scroll_to_bottom = (\<lambda>i. None),
      pg_wait_for_timeout = (\<lambda>i. None),
      pg_scroll_height = (\<lambda>i. Inr 1000),
      pg_screenshot_after = None,
      pg_title = Inr (lit ''Threads''),
      pg_url = lit ''https://www.threads.com/?hl=ko'',
      pg_inner_texts = Inr [],
      pg_content = Inr (lit ''<html></html>''),
      pg_screenshot_error = None\<rparr>"

text \<open>
  A standard output that takes every line, and one that takes ASCII only, as a stream
  with the encoding of the C locale does.
\<close>

definition quiet_stdout :: stdout where
  "quiet_stdout = (\<lambda>line. None)"

definition ascii_stdout :: stdout where
  "ascii_stdout =
     (\<lambda>line. if list_all (\<lambda>c. c < 128) line then None
             else Some (OtherException (lit ''codec cannot encode character'')))"

text \<open>An environment in which every call returns, around a given page.\<close>

definition quiet_env :: "page \<Rightarrow> env" where
  "quiet_env pg =
     \<lparr>env_target_url = lit ''https://www.threads.com/?hl=ko'',
      env_stdout = quiet_stdout,
      env_mkdir_output = None,
      env_mkdir_screenshots = None,
      env_timestamp = lit ''20240101_000000'',
      env_playwright_start = None,
      env_create_browser_context = None,
      env_new_page = None,
      env_page = pg,
      env_now_utc = lit ''2024-01-01T00:00:00+00:00'',
      env_browser_close = None,
      env_playwright_stop = None,
      env_write_output = None,
      env_write_latest = None\<rparr>"

text \<open>A page with one post of 600 letters \<open>A\<close> between blanks, an element without text and a short one.\<close>

definition post_page :: page where
  "post_page = quiet_page\<lparr>pg_inner_texts :=
     Inr [Some (lit ''  '' @ times (lit ''A'') 600 @ lit '' ''), None,
          Some (lit ''too short'')]\<rparr>"

text \<open>
  A page whose successive height measurements are the given ones; after the last of them
  the height stays as it is.
\<close>

definition page_with_heights :: "int list \<Rightarrow> page" where
  "page_with_heights hs =
     quiet_page\<lparr>pg_scroll_height := (\<lambda>i. Inr (if i < length hs then hs ! i else last hs))\<rparr>"

text \<open>Navigation fails with an exception whose message is empty, such as \<open>Exception()\<close>.\<close>

definition silent_failure_env :: env where
  "silent_failure_env = quiet_env (quiet_page\<lparr>pg_goto := Some (OtherException [])\<rparr>)"


text \<open>Navigation runs into Playwright's timeout.\<close>

definition timeout_env :: env where
  "timeout_env =
     quiet_env (quiet_page\<lparr>pg_goto :=
       Some (PlaywrightTimeout (lit ''Timeout 60000ms exceeded.''))\<rparr>)"



section \<open>Example records and file systems\<close>

text \<open>
  Answers of the right type for the library functions that are not computed here; what
  is proved below holds whatever they answer.
\<close>

definition example_lib :: pylib where
  "example_lib =
     \<lparr>lib_repr = (\<lambda>v. lit ''[...]''),
      lib_str_float = (\<lambda>x. lit ''0.0''),
      lib_upper = (\<lambda>s. s),
      lib_kb_float = (\<lambda>x. lit ''0.0''),
      lib_kb_int = (\<lambda>n. lit ''-0.0''),
      lib_slice_of_dict = TypeError\<rparr>"

definition example_date :: pystr where
  "example_date = lit ''2024-01-02 09:30''"

text \<open>The record of the specification's example: one post of 600 letters \<open>A\<close>, a page of 2048 characters.\<close>

definition example_record :: json where
  "example_record =
     JObj [(lit ''status'', JStr (lit ''success'')),
           (lit ''posts'', JArr [JStr (times (lit ''A'') 600)]),
           (lit ''posts_count'', JInt 1),
           (lit ''html_length'', JInt 2048),
           (lit ''scraped_at'', JStr (lit ''2024-01-01T00:00:00Z''))]"

text \<open>A record whose \<open>html_length\<close> is \<open>null\<close>.\<close>

definition null_length_record :: json where
  "null_length_record = JObj [(lit ''html_length'', JNull)]"

text \<open>
  A record that is no \<open>CrawlResult\<close> but renders: a negative \<open>html_length\<close>, a string
  and a list as posts, a number as status.
\<close>

definition odd_record :: json where
  "odd_record =
     JObj [(lit ''html_length'', JInt (- 5)),
           (lit ''posts'', JArr [JStr (lit ''hello''), JArr [JInt 1, JNull]]),
           (lit ''status'', JInt 404)]"

text \<open>
  A system that lets every call go ahead and prints every line, and one that lets no
  directory be made.
\<close>

definition quiet_os :: os where
  "quiet_os = \<lparr>os_refuses = (\<lambda>call p. None), os_stdout = (\<lambda>line. None)\<rparr>"

definition read_only_os :: os where
  "read_only_os =
     \<lparr>os_refuses = (\<lambda>call p. if call = Mkdir then Some PermissionError else None),
      os_stdout = (\<lambda>line. None)\<rparr>"

text \<open>An empty working directory, and one in which \<open>reports\<close> is a regular file.\<close>

definition empty_fs :: fs where
  "empty_fs = (\<lambda>p. Absent)"

definition reports_is_file_fs :: fs where
  "reports_is_file_fs = empty_fs(REPORTS_DIR := File (Text []))"

section \<open>Properties of the scroll loop\<close>

lemma scroll_loop_iterations:
  "iterations (scroll_loop pg out m p prev is) \<le> length is"
proof (induction "is" arbitrary: prev)
  case Nil
  then show ?case by (simp add: iterations_def)
next
  case (Cons i rest)
  show ?case
  proof (cases "pg_scroll_height pg i")
    case (Inl e)
    then show ?thesis
      by (simp add: iterations_def split: option.splits)
  next
    case (Inr h)
    obtain evs ex where r: "scroll_loop pg out m p h rest = (evs, ex)"
      by (cases "scroll_loop pg out m p h rest")
    have "length (filter (\<lambda>ev. ev = ScrollToBottom) evs) \<le> length rest"
      using Cons.IH [of h] r by (simp add: iterations_def)
    with Inr r show ?thesis
      by (simp add: iterations_def split: option.splits)
  qed
qed

text \<open>
  C4. Whatever the page and standard output answer and whatever \<open>max_scrolls\<close> is, the
  scroll loop runs at most \<open>max_scrolls\<close> iterations (none when \<open>max_scrolls\<close> is not
  positive); the loop is a total function, so it always ends, by exhausting the range, by
  \<open>break\<close> or by an exception.
\<close>

theorem scroll_for_content_bounded:
  "int (iterations (scroll_for_content pg out max_scrolls pause_ms)) \<le> max 0 max_scrolls"
proof -
  have "iterations (scroll_for_content pg out max_scrolls pause_ms) \<le> nat max_scrolls"
    using scroll_loop_iterations [of pg out max_scrolls pause_ms "- 1" "[0 ..< nat max_scrolls]"]
    by (simp add: scroll_for_content_def)
  then show ?thesis by linarith
qed

text \<open>One iteration when the calls on the page return and the lines are printed.\<close>

lemma scroll_loop_step:
  assumes "pg_scroll_to_bottom pg i = None" and "pg_wait_for_timeout pg i = None"
    and "pg_scroll_height pg i = Inr x" and "\<forall>line. out line = None"
  shows "snd (scroll_loop pg out m p prev (i # rest)) =
           (if x = prev then Break else snd (scroll_loop pg out m p x rest))"
    and "iterations (scroll_loop pg out m p prev (i # rest)) =
           (if x = prev then 1 else Suc (iterations (scroll_loop pg out m p x rest)))"
    and "scrolls_performed (scroll_loop pg out m p prev (i # rest)) =
           (if x = prev then 1 else Suc (scrolls_performed (scroll_loop pg out m p x rest)))"
    and "measurements (scroll_loop pg out m p prev (i # rest)) =
           (if x = prev then [x] else x # measurements (scroll_loop pg out m p x rest))"
  using assms
  by (simp_all add: iterations_def scrolls_performed_def measurements_def split: prod.splits)

lemma scroll_loop_break:
  assumes scroll: "\<forall>i. pg_scroll_to_bottom pg i = None"
    and pause: "\<forall>i. pg_wait_for_timeout pg i = None"
    and height: "\<forall>i. pg_scroll_height pg i = Inr (h i)"
    and printed: "\<forall>line. out line = None"
    and "a \<le> k" and "Suc k < b" and "h (Suc k) = h k"
  shows "snd (scroll_loop pg out m p prev [a ..< b]) = Break
       \<and> iterations (scroll_loop pg out m p prev [a ..< b]) \<le> Suc (Suc k) - a"
  using \<open>a \<le> k\<close>
proof (induction "k - a" arbitrary: a prev)
  case 0
  then have a: "a = k" by simp
  have step: "\<And>i. pg_scroll_to_bottom pg i = None \<and> pg_wait_for_timeout pg i = None
      \<and> pg_scroll_height pg i = Inr (h i)"
    using scroll pause height by simp
  have l1: "[k ..< b] = k # [Suc k ..< b]"
    using \<open>Suc k < b\<close> by (simp add: upt_conv_Cons)
  have l2: "[Suc k ..< b] = Suc k # [Suc (Suc k) ..< b]"
    using \<open>Suc k < b\<close> by (simp add: upt_conv_Cons)
  show ?case
    unfolding a l1
    using \<open>h (Suc k) = h k\<close> step printed
    by (simp add: scroll_loop_step l2 del: scroll_loop.simps)
next
  case (Suc d)
  then have "a < k" and d: "d = k - Suc a" and le: "Suc a \<le> k" by simp_all
  have step: "pg_scroll_to_bottom pg a = None \<and> pg_wait_for_timeout pg a = None
      \<and> pg_scroll_height pg a = Inr (h a)"
    using scroll pause height by simp
  have l: "[a ..< b] = a # [Suc a ..< b]"
    using \<open>a < k\<close> \<open>Suc k < b\<close> by (simp add: upt_conv_Cons)
  from Suc.hyps(1) [OF d le, of "h a"] \<open>a < k\<close> step printed show ?case
    unfolding l by (auto simp add: scroll_loop_step simp del: scroll_loop.simps)
qed

lemma example_heights_run:
  "scroll_for_content (page_with_heights [1000, 2000, 2000]) quiet_stdout 5 2000 =
     ([ScrollToBottom, WaitForTimeout 2000, Measured 1000, Printed (scrolling_line 0 5),
       ScrollToBottom, WaitForTimeout 2000, Measured 2000, Printed (scrolling_line 1 5),
       ScrollToBottom, WaitForTimeout 2000, Measured 2000, Printed (content_loaded_line 2)],
      Break)"
  by (simp add: scroll_for_content_def page_with_heights_def quiet_page_def quiet_stdout_def
      upt_rec numeral_2_eq_2)

text \<open>The last line printed in that run is the one of the source, with a 3 in it.\<close>

lemma example_last_line:
  "content_loaded_line 2 = [10003] @ lit '' Content loaded after 3 scrolls''"
  by (simp add: content_loaded_line_def str_int_def digits.simps lit_def)

text \<open>
  On a standard output that takes ASCII only, the same page makes the loop end by the
  exception of the \<open>print\<close> before the \<open>break\<close>.
\<close>

lemma example_heights_ascii_stdout:
  "snd (scroll_for_content (page_with_heights [1000, 2000, 2000]) ascii_stdout 5 2000) =
     Raised (OtherException (lit ''codec cannot encode character''))"
  by (simp add: scroll_for_content_def page_with_heights_def quiet_page_def ascii_stdout_def
      upt_rec scrolling_line_def content_loaded_line_def str_int_def digits.simps lit_def)

text \<open>
  C5, as the claim states it: on the heights 1000, 2000, 2000 with \<open>max_scrolls = 5\<close> the
  loop stops after 3 iterations, but it has then scrolled 3 times, not 2: every iteration
  scrolls before it measures, the third one too.
\<close>

theorem scroll_example_three_scrolls:
  "iterations (scroll_for_content (page_with_heights [1000, 2000, 2000]) quiet_stdout 5 2000) = 3
   \<and> measurements (scroll_for_content (page_with_heights [1000, 2000, 2000]) quiet_stdout 5 2000)
       = [1000, 2000, 2000]
   \<and> scrolls_performed
        (scroll_for_content (page_with_heights [1000, 2000, 2000]) quiet_stdout 5 2000) = 3
   \<and> scrolls_performed
        (scroll_for_content (page_with_heights [1000, 2000, 2000]) quiet_stdout 5 2000) \<noteq> 2"
  by (simp add: example_heights_run iterations_def measurements_def scrolls_performed_def)

text \<open>
  C5, amended. Let the calls on the page return and standard output take the lines the
  loop prints, and let the measurements of two consecutive iterations within the budget be
  equal (the heights \<open>h k\<close> and \<open>h (Suc k)\<close>, with \<open>Suc k < max_scrolls\<close>). Then the
  loop leaves by \<open>break\<close>, and no later than in the iteration of the second of them
  (iteration \<open>k + 2\<close>, counting from 1): before the budget is used up unless that
  iteration is the last one. On the heights 1000, 2000, 2000 with \<open>max_scrolls = 5\<close> and
  such an output it stops after 3 iterations, in which it scrolled 3 times and measured a
  third height equal to the second.
\<close>

theorem scroll_for_content_early_exit:
  "(\<forall>pg out h k max_scrolls pause_ms.
      (\<forall>i. pg_scroll_to_bottom pg i = None) \<and> (\<forall>i. pg_wait_for_timeout pg i = None)
      \<and> (\<forall>i. pg_scroll_height pg i = Inr (h i))
      \<and> (\<forall>line. out line = None)
      \<and> int (Suc k) < max_scrolls \<and> h (Suc k) = h k \<longrightarrow>
      snd (scroll_for_content pg out max_scrolls pause_ms) = Break
      \<and> iterations (scroll_for_content pg out max_scrolls pause_ms) \<le> k + 2)
   \<and> snd (scroll_for_content (page_with_heights [1000, 2000, 2000]) quiet_stdout 5 2000) = Break
   \<and> iterations (scroll_for_content (page_with_heights [1000, 2000, 2000]) quiet_stdout 5 2000) = 3
   \<and> scrolls_performed
        (scroll_for_content (page_with_heights [1000, 2000, 2000]) quiet_stdout 5 2000) = 3
   \<and> measurements (scroll_for_content (page_with_heights [1000, 2000, 2000]) quiet_stdout 5 2000)
       = [1000, 2000, 2000]"
proof -
  have general: "snd (scroll_for_content pg out max_scrolls pause_ms) = Break
      \<and> iterations (scroll_for_content pg out max_scrolls pause_ms) \<le> k + 2"
    if "\<forall>i. pg_scroll_to_bottom pg i = None" and "\<forall>i. pg_wait_for_timeout pg i = None"
      and "\<forall>i. pg_scroll_height pg i = Inr (h i)" and "\<forall>line. out line = None"
      and "int (Suc k) < max_scrolls" and "h (Suc k) = h k"
    for pg out h k max_scrolls pause_ms
  proof -
    from that(5) have "Suc k < nat max_scrolls" by linarith
    from scroll_loop_break [OF that(1-4) _ this that(6), of 0 max_scrolls pause_ms "- 1"]
    show ?thesis by (simp add: scroll_for_content_def)
  qed
  have example:
    "snd (scroll_for_content (page_with_heights [1000, 2000, 2000]) quiet_stdout 5 2000) = Break
     \<and> iterations (scroll_for_content (page_with_heights [1000, 2000, 2000]) quiet_stdout 5 2000)
         = 3
     \<and> scrolls_performed
          (scroll_for_content (page_with_heights [1000, 2000, 2000]) quiet_stdout 5 2000) = 3
     \<and> measurements (scroll_for_content (page_with_heights [1000, 2000, 2000]) quiet_stdout 5 2000)
         = [1000, 2000, 2000]"
    by (simp add: example_heights_run iterations_def measurements_def scrolls_performed_def)
  from general example show ?thesis by blast
qed

theorem scroll_for_content_early_exit_witness:
  "(\<forall>i. pg_scroll_to_bottom (page_with_heights [500, 800, 800, 900]) i = None)
   \<and> (\<forall>i. pg_wait_for_timeout (page_with_heights [500, 800, 800, 900]) i = None)
   \<and> (\<forall>i. pg_scroll_height (page_with_heights [500, 800, 800, 900]) i
         = Inr (if i < 4 then [500, 800, 800, 900] ! i else 900))
   \<and> (\<forall>line. quiet_stdout line = None)
   \<and> int (Suc 1) < 4
   \<and> [500, 800, 800, 900 :: int] ! Suc 1 = [500, 800, 800, 900] ! 1
   \<and> snd (scroll_for_content (page_with_heights [500, 800, 800, 900]) quiet_stdout 4 2000) = Break
   \<and> iterations (scroll_for_content (page_with_heights [500, 800, 800, 900]) quiet_stdout 4 2000)
       \<le> 1 + 2"
proof -
  let ?page = "page_with_heights [500, 800, 800, 900]"
  let ?hs = "\<lambda>i. if i < 4 then [500, 800, 800, 900 :: int] ! i else 900"
  have hyp: "(\<forall>i. pg_scroll_to_bottom ?page i = None)
      \<and> (\<forall>i. pg_wait_for_timeout ?page i = None)
      \<and> (\<forall>i. pg_scroll_height ?page i = Inr (?hs i))
      \<and> (\<forall>line. quiet_stdout line = None)
      \<and> int (Suc 1) < 4 \<and> ?hs (Suc 1) = ?hs 1"
    by (simp add: page_with_heights_def quiet_page_def quiet_stdout_def)
  from hyp scroll_for_content_early_exit
    [THEN conjunct1, rule_format, where pg = ?page and out = quiet_stdout and h = ?hs
      and k = 1 and max_scrolls = 4 and pause_ms = 2000]
  have "snd (scroll_for_content ?page quiet_stdout 4 2000) = Break
      \<and> iterations (scroll_for_content ?page quiet_stdout 4 2000) \<le> 1 + 2"
    by simp
  with hyp show ?thesis by simp
qed

section \<open>Properties of \<open>extract_content\<close>\<close>

lemma lit_eq_iff [simp]: "lit a = lit b \<longleftrightarrow> a = b"
  by (simp add: lit_def inj_map_eq_map [OF inj_of_char])

lemma times_A: "times (lit ''A'') n = replicate n 65"
  by (induction n) (simp_all add: times_def lit_def)

lemma from_js_length: "length (from_js s) \<le> length s"
  by (induction s rule: from_js.induct) auto

lemma posts_for_each_bounded:
  "(\<forall>p \<in> set posts. length p \<le> 500) \<Longrightarrow> p \<in> set (posts_for_each els posts) \<Longrightarrow>
     length p \<le> 500"
proof (induction els arbitrary: posts)
  case Nil
  then show ?case by simp
next
  case (Cons el els)
  show ?case
  proof (cases el)
    case None
    with Cons show ?thesis by simp
  next
    case (Some inner_text)
    let ?text = "js_trim inner_text"
    have "\<forall>q \<in> set (posts @ [take 500 ?text]). length q \<le> 500"
      using Cons.prems(1) by simp
    from Cons.IH [OF this] Cons.IH [OF Cons.prems(1)] Cons.prems(2) Some
    show ?thesis by (simp add: Let_def split: if_splits)
  qed
qed

lemma posts_script_bounded:
  "length (posts_script els) \<le> 50 \<and> (\<forall>p \<in> set (posts_script els). length p \<le> 500)"
  using posts_for_each_bounded [of "[]" _ els]
  by (auto simp: posts_script_def dest: in_set_takeD)

lemma extract_content_fields:
  assumes "extract_content pg now = Inr data"
  shows "\<exists>els. pg_inner_texts pg = Inr els
           \<and> data (lit ''posts'') = Some (JArr (map JStr (map from_js (posts_script els))))
           \<and> data (lit ''posts_count'')
               = Some (JInt (int (length (map from_js (posts_script els)))))
           \<and> data (lit ''url'') = Some (JStr (pg_url pg))
           \<and> data (lit ''status'') = None
           \<and> data (lit ''error'') = None"
  using assms unfolding extract_content_def with_result_def Let_def
  by (cases "pg_title pg"; cases "pg_inner_texts pg"; cases "pg_content pg") auto

text \<open>
  C1. In every record that \<open>extract_content\<close> returns, \<open>posts\<close> is a list of strings,
  \<open>posts_count\<close> is its length, it has at most 50 entries, and every entry has at most
  500 characters.
\<close>

theorem extract_content_posts:
  assumes "extract_content pg now = Inr data"
  shows "\<exists>posts. data (lit ''posts'') = Some (JArr (map JStr posts))
           \<and> data (lit ''posts_count'') = Some (JInt (int (length posts)))
           \<and> length posts \<le> 50
           \<and> (\<forall>p \<in> set posts. length p \<le> 500)"
proof -
  from extract_content_fields [OF assms] obtain els where
    posts: "data (lit ''posts'') = Some (JArr (map JStr (map from_js (posts_script els))))" and
    count: "data (lit ''posts_count'')
              = Some (JInt (int (length (map from_js (posts_script els)))))"
    by blast
  let ?posts = "map from_js (posts_script els)"
  have "length ?posts \<le> 50"
    using posts_script_bounded [of els] by simp
  moreover have "\<forall>p \<in> set ?posts. length p \<le> 500"
    using posts_script_bounded [of els] from_js_length
    by (auto intro: order_trans)
  ultimately show ?thesis using posts count by blast
qed

lemma replicate_dropWhile:
  "\<not> P x \<Longrightarrow> dropWhile P (replicate n x @ ys)
     = (if n = 0 then dropWhile P ys else replicate n x @ ys)"
  by (cases n) auto

lemma post_page_posts_script:
  "posts_script [Some (lit ''  '' @ replicate 600 65 @ lit '' ''), None,
                 Some (lit ''too short'')] = [replicate 500 65]"
  by (simp add: posts_script_def js_trim_def js_whitespace_def lit_def Let_def
      replicate_dropWhile)

lemma from_js_letters: "from_js (replicate n 65) = replicate n 65"
proof (induction n rule: less_induct)
  case (less n)
  show ?case
  proof (cases n)
    case 0
    then show ?thesis by simp
  next
    case (Suc m)
    show ?thesis
    proof (cases m)
      case 0
      with Suc show ?thesis by simp
    next
      case (Suc l)
      with \<open>n = Suc m\<close> less.IH [of m] show ?thesis by simp
    qed
  qed
qed

theorem extract_content_posts_witness:
  "\<exists>data. extract_content post_page (lit ''2024-01-01T00:00:00+00:00'') = Inr data
     \<and> data (lit ''posts'') = Some (JArr [JStr (times (lit ''A'') 500)])
     \<and> data (lit ''posts_count'') = Some (JInt 1)
     \<and> (\<exists>posts. data (lit ''posts'') = Some (JArr (map JStr posts))
           \<and> data (lit ''posts_count'') = Some (JInt (int (length posts)))
           \<and> length posts \<le> 50
           \<and> (\<forall>p \<in> set posts. length p \<le> 500))"
proof -
  obtain data where run: "extract_content post_page (lit ''2024-01-01T00:00:00+00:00'') = Inr data"
    by (simp add: extract_content_def with_result_def post_page_def quiet_page_def)
  from extract_content_fields [OF run]
  have "data (lit ''posts'') = Some (JArr [JStr (times (lit ''A'') 500)])"
    and "data (lit ''posts_count'') = Some (JInt 1)"
    by (simp_all add: post_page_def quiet_page_def times_A post_page_posts_script
        from_js_letters)
  with run extract_content_posts [OF run] show ?thesis by blast
qed

section \<open>Properties of \<open>main\<close>\<close>

lemma try_body_success:
  assumes "try_body env = Inr data"
  shows "\<exists>d. extract_content (env_page env) (env_now_utc env) = Inr d
           \<and> data = d(lit ''status'' \<mapsto> JStr (lit ''success''))"
  using assms unfolding try_body_def after_def with_result_def Let_def
  by (auto split: option.splits sum.splits)

lemma try_except_cases:
  assumes "try_except env = Inr data"
  shows "(\<exists>d. extract_content (env_page env) (env_now_utc env) = Inr d
            \<and> data = d(lit ''status'' \<mapsto> JStr (lit ''success'')))
         \<or> (\<exists>e. try_body env = Inl e \<and> is_Exception e \<and> data = error_data env e)"
proof (cases "try_body env")
  case (Inl e)
  with assms show ?thesis
    by (auto simp: try_except_def after_def split: if_splits option.splits)
next
  case (Inr d)
  with assms have "try_body env = Inr data"
    by (simp add: try_except_def)
  from try_body_success [OF this] show ?thesis by blast
qed

lemma with_playwright_Inr:
  assumes "with_playwright env = Inr data"
  shows "try_except env = Inr data"
  using assms unfolding with_playwright_def after_def Let_def
  by (auto split: option.splits)


lemma main_written:
  assumes "(path, data) \<in> set (fst (main env))"
  shows "try_except env = Inr data"
proof -
  from assms have "with_playwright env = Inr data"
    unfolding main_def after_def
    by (auto split: option.splits sum.splits)
  then show ?thesis by (rule with_playwright_Inr)
qed

lemma success_data:
  assumes "extract_content pg now = Inr d"
  shows "(d(lit ''status'' \<mapsto> JStr (lit ''success''))) (lit ''status'')
           = Some (JStr (lit ''success''))
       \<and> (d(lit ''status'' \<mapsto> JStr (lit ''success''))) (lit ''error'') = None
       \<and> (d(lit ''status'' \<mapsto> JStr (lit ''success''))) (lit ''url'')
           = Some (JStr (pg_url pg))"
  using extract_content_fields [OF assms] by auto

lemma error_data_fields:
  "error_data env e (lit ''status'') = Some (JStr (lit ''error''))"
  "error_data env e (lit ''error'') = Some (JStr (str_exn e))"
  "error_data env e (lit ''url'') = Some (JStr (env_target_url env))"
  "error_data env e (lit ''posts'') = None"
  by (simp_all add: error_data_def)

text \<open>The two records that the \<open>try\<close> statement can leave.\<close>

lemma try_except_record:
  assumes "try_except env = Inr data"
  shows "(data (lit ''status'') = Some (JStr (lit ''success''))
            \<and> data (lit ''error'') = None
            \<and> data (lit ''url'') = Some (JStr (pg_url (env_page env))))
         \<or> (\<exists>e. try_body env = Inl e
            \<and> data (lit ''status'') = Some (JStr (lit ''error''))
            \<and> data (lit ''error'') = Some (JStr (str_exn e))
            \<and> data (lit ''url'') = Some (JStr (env_target_url env))
            \<and> data (lit ''posts'') = None)"
  using try_except_cases [OF assms]
proof
  assume "\<exists>d. extract_content (env_page env) (env_now_utc env) = Inr d
            \<and> data = d(lit ''status'' \<mapsto> JStr (lit ''success''))"
  then obtain d where d: "extract_content (env_page env) (env_now_utc env) = Inr d"
    and data: "data = d(lit ''status'' \<mapsto> JStr (lit ''success''))"
    by blast
  from success_data [OF d] show ?thesis unfolding data by blast
next
  assume "\<exists>e. try_body env = Inl e \<and> is_Exception e \<and> data = error_data env e"
  then obtain e where "try_body env = Inl e" and "data = error_data env e"
    by blast
  then show ?thesis using error_data_fields [of env e] by blast
qed

text \<open>What \<open>main\<close> does when navigation raises \<open>e\<close> in an otherwise quiet environment.\<close>

lemma main_goto_raises:
  assumes "is_Exception e"
  shows "main (quiet_env (quiet_page\<lparr>pg_goto := Some e\<rparr>)) =
     ([(output_file (quiet_env (quiet_page\<lparr>pg_goto := Some e\<rparr>)),
        error_data (quiet_env (quiet_page\<lparr>pg_goto := Some e\<rparr>)) e),
       (latest_file, error_data (quiet_env (quiet_page\<lparr>pg_goto := Some e\<rparr>)) e)],
      Inr (error_data (quiet_env (quiet_page\<lparr>pg_goto := Some e\<rparr>)) e))"
proof -
  let ?env = "quiet_env (quiet_page\<lparr>pg_goto := Some e\<rparr>)"
  have "try_body ?env = Inl e"
    by (simp add: try_body_def after_def quiet_env_def)
  then have "try_except ?env = Inr (error_data ?env e)"
    using assms by (simp add: try_except_def after_def quiet_env_def quiet_stdout_def)
  then have "with_playwright ?env = Inr (error_data ?env e)"
    by (simp add: with_playwright_def after_def quiet_env_def quiet_stdout_def)
  then show ?thesis
    by (simp add: main_def after_def quiet_env_def quiet_stdout_def)
qed






text \<open>
  C2, as the claim states it: when navigation fails with an exception whose \<open>str\<close> is
  empty, the record written has status \<open>error\<close> and an \<open>error\<close> field that is the
  empty string.
\<close>

theorem error_field_empty_counterexample:
  "fst (main silent_failure_env) =
     [(output_file silent_failure_env, error_data silent_failure_env (OtherException [])),
      (latest_file, error_data silent_failure_env (OtherException []))]
   \<and> error_data silent_failure_env (OtherException []) (lit ''status'')
       = Some (JStr (lit ''error''))
   \<and> error_data silent_failure_env (OtherException []) (lit ''error'') = Some (JStr [])"
  using main_goto_raises [of "OtherException []"]
  by (simp add: silent_failure_env_def error_data_fields)

text \<open>
  C2, amended. For every record the Fetcher writes: if its status is \<open>error\<close>, the
  \<open>error\<close> field is present and holds \<open>str(e)\<close> of the exception \<open>e\<close> that ended the
  \<open>try\<close> (so it is empty exactly when that message is), and \<open>posts\<close> is absent; if
  its status is \<open>success\<close>, the \<open>error\<close> field is absent.
\<close>

theorem main_written_record:
  assumes "(path, data) \<in> set (fst (main env))"
  shows "(data (lit ''status'') = Some (JStr (lit ''error'')) \<longrightarrow>
            (\<exists>e. try_body env = Inl e \<and> data (lit ''error'') = Some (JStr (str_exn e)))
            \<and> data (lit ''posts'') = None)
         \<and> (data (lit ''status'') = Some (JStr (lit ''success'')) \<longrightarrow>
            data (lit ''error'') = None)"
  using try_except_record [OF main_written [OF assms]] by auto

theorem main_written_record_witness:
  "(latest_file, error_data timeout_env (PlaywrightTimeout (lit ''Timeout 60000ms exceeded.'')))
      \<in> set (fst (main timeout_env))
   \<and> error_data timeout_env (PlaywrightTimeout (lit ''Timeout 60000ms exceeded.''))
        (lit ''status'') = Some (JStr (lit ''error''))
   \<and> (\<exists>e. try_body timeout_env = Inl e
        \<and> error_data timeout_env (PlaywrightTimeout (lit ''Timeout 60000ms exceeded.''))
             (lit ''error'') = Some (JStr (str_exn e)))
   \<and> error_data timeout_env (PlaywrightTimeout (lit ''Timeout 60000ms exceeded.''))
        (lit ''error'') = Some (JStr (lit ''Timeout 60000ms exceeded.''))
   \<and> error_data timeout_env (PlaywrightTimeout (lit ''Timeout 60000ms exceeded.''))
        (lit ''posts'') = None"
proof -
  let ?e = "PlaywrightTimeout (lit ''Timeout 60000ms exceeded.'')"
  have written: "(latest_file, error_data timeout_env ?e) \<in> set (fst (main timeout_env))"
    using main_goto_raises [of ?e] by (simp add: timeout_env_def)
  have status: "error_data timeout_env ?e (lit ''status'') = Some (JStr (lit ''error''))"
    and message: "error_data timeout_env ?e (lit ''error'')
      = Some (JStr (lit ''Timeout 60000ms exceeded.''))"
    by (simp_all add: error_data_fields)
  from main_written_record [OF written] status message written show ?thesis by simp
qed







section \<open>Properties of the Reporter\<close>

lemma add_computed_fields_JObj:
  "add_computed_fields date (JObj kvs) =
     Inr (setdefault (setdefault (setdefault (setdefault
       ((map_of (rev kvs))(lit ''date'' \<mapsto> JStr date))
       (lit ''posts'') (JArr [])) (lit ''posts_count'') (JInt 0))
       (lit ''html_length'') (JInt 0)) (lit ''status'') (JStr (lit ''unknown'')))"
  by (simp add: add_computed_fields_def Let_def)

lemma setdefault_apply:
  "setdefault d k v k' = (if k' = k then Some (case d k of None \<Rightarrow> v | Some old \<Rightarrow> old) else d k')"
  by (simp add: setdefault_def split: option.splits)

text \<open>The fields of the record after the defaults are filled in.\<close>

lemma add_computed_fields_fields:
  assumes "add_computed_fields date (JObj kvs) = Inr data"
  shows "data (lit ''date'') = Some (JStr date)"
    and "data (lit ''posts'')
           = Some (case map_of (rev kvs) (lit ''posts'') of None \<Rightarrow> JArr [] | Some v \<Rightarrow> v)"
    and "data (lit ''posts_count'')
           = Some (case map_of (rev kvs) (lit ''posts_count'') of None \<Rightarrow> JInt 0 | Some v \<Rightarrow> v)"
    and "data (lit ''html_length'')
           = Some (case map_of (rev kvs) (lit ''html_length'') of None \<Rightarrow> JInt 0 | Some v \<Rightarrow> v)"
    and "data (lit ''status'')
           = Some (case map_of (rev kvs) (lit ''status'') of
                     None \<Rightarrow> JStr (lit ''unknown'') | Some v \<Rightarrow> v)"
    and "data (lit ''self'') = map_of (rev kvs) (lit ''self'')"
    and "data (lit ''url'') = map_of (rev kvs) (lit ''url'')"
    and "data (lit ''scraped_at'') = map_of (rev kvs) (lit ''scraped_at'')"
  using assms unfolding add_computed_fields_JObj
  by (auto simp: setdefault_apply split: option.splits)

text \<open>When each part of a template returns and when it raises.\<close>

lemma jinja_kb_defined:
  assumes "kb_defined v"
  shows "\<exists>kb. jinja_kb lib (Some v) = Inr kb"
  using assms by (cases v) (simp_all add: kb_int_def Let_def)

lemma jinja_kb_raises:
  assumes "\<not> kb_defined v"
  shows "\<exists>e. jinja_kb lib (Some v) = Inl e"
  using assms by (cases v) (simp_all add: kb_int_def)

lemma sliceable_defined:
  assumes "sliceable v"
  shows "\<exists>shown. jinja_slice_print lib v n = Inr shown" and "\<exists>k. jinja_length (Some v) = Inr k"
  using assms by (cases v; simp)+

lemma sliceable_raises:
  assumes "\<not> sliceable v"
  shows "\<exists>e. jinja_slice_print lib v n = Inl e"
  using assms by (cases v) simp_all

lemma html_post_defined:
  assumes "sliceable post"
  shows "\<exists>s. html_post lib post = Inr s"
  using sliceable_defined(1) [OF assms, of lib 300] sliceable_defined(2) [OF assms]
  by (auto simp: html_post_def and_then_def)

lemma html_post_raises:
  assumes "\<not> sliceable post"
  shows "\<exists>e. html_post lib post = Inl e"
  using sliceable_raises [OF assms, of lib 300] by (auto simp: html_post_def and_then_def)

lemma md_post_defined:
  assumes "sliceable (snd item)"
  shows "\<exists>s. md_post lib item = Inr s"
  using sliceable_defined(1) [OF assms, of lib 200] sliceable_defined(2) [OF assms]
  by (cases item) (auto simp: md_post_def and_then_def)

lemma render_each_defined:
  assumes "list_all (\<lambda>x. \<exists>s. body x = Inr s) xs"
  shows "\<exists>s. render_each body xs = Inr s"
  using assms
proof (induction xs)
  case Nil
  then show ?case by simp
next
  case (Cons x xs)
  then obtain first others where "body x = Inr first" and "render_each body xs = Inr others"
    by auto
  then show ?case by (simp add: and_then_def)
qed

lemma render_each_raises:
  assumes "\<not> list_all (\<lambda>x. \<exists>s. body x = Inr s) xs"
  shows "\<exists>e. render_each body xs = Inl e"
  using assms
proof (induction xs)
  case Nil
  then show ?case by simp
next
  case (Cons x xs)
  show ?case
  proof (cases "body x")
    case (Inl e)
    then show ?thesis by (simp add: and_then_def)
  next
    case (Inr first)
    with Cons.prems have "\<not> list_all (\<lambda>x. \<exists>s. body x = Inr s) xs" by simp
    from Cons.IH [OF this] obtain e where "render_each body xs = Inl e" by blast
    with Inr show ?thesis by (simp add: and_then_def)
  qed
qed

lemma list_all_take_le:
  assumes "list_all P (take m xs)" and "n \<le> m"
  shows "list_all P (take n xs)"
proof -
  have "set (take n xs) \<subseteq> set (take m xs)"
    using assms(2) by (rule set_take_subset_set_take)
  with assms(1) show ?thesis
    by (auto simp: list_all_iff)
qed

lemma jinja_slice_items_defined:
  assumes "posts_defined v" and "n \<le> 20"
  shows "\<exists>items. jinja_slice_items lib (Some v) n = Inr items \<and> list_all sliceable items"
proof (cases v)
  case (JArr xs)
  with assms list_all_take_le [of sliceable 20 xs n] show ?thesis by simp
next
  case (JStr s)
  then show ?thesis by (simp add: list_all_iff)
qed (use assms in simp_all)

lemma posts_length_defined:
  assumes "posts_defined v"
  shows "\<exists>n. jinja_length (Some v) = Inr n"
  using assms by (cases v) simp_all

lemma render_html_defined:
  assumes "ctx (lit ''html_length'') = Some len" and "kb_defined len"
    and "ctx (lit ''posts'') = Some posts" and "posts_defined posts"
  shows "\<exists>html. render_html lib ctx = Inr html"
proof -
  from jinja_kb_defined [OF assms(2)] obtain kb where kb: "jinja_kb lib (Some len) = Inr kb"
    by blast
  from jinja_slice_items_defined [OF assms(4), of 20] obtain items where
    items: "jinja_slice_items lib (Some posts) 20 = Inr items" and sized: "list_all sliceable items"
    by auto
  have "list_all (\<lambda>x. \<exists>s. html_post lib x = Inr s) items"
    using sized html_post_defined by (auto simp: list_all_iff)
  from render_each_defined [OF this] obtain posts_html where
    each: "render_each (html_post lib) items = Inr posts_html"
    by blast
  from posts_length_defined [OF assms(4)] obtain n where n: "jinja_length (Some posts) = Inr n"
    by blast
  show ?thesis
    unfolding render_html_def
    by (simp add: assms(1,3) kb items each n and_then_def)
qed

lemma render_markdown_defined:
  assumes "ctx (lit ''html_length'') = Some len" and "kb_defined len"
    and "ctx (lit ''posts'') = Some posts" and "posts_defined posts"
  shows "\<exists>md. render_markdown lib ctx = Inr md"
proof -
  from jinja_kb_defined [OF assms(2)] obtain kb where kb: "jinja_kb lib (Some len) = Inr kb"
    by blast
  from jinja_slice_items_defined [OF assms(4), of 10] obtain items where
    items: "jinja_slice_items lib (Some posts) 10 = Inr items" and sized: "list_all sliceable items"
    by auto
  have "list_all (\<lambda>x. \<exists>s. md_post lib x = Inr s) (zip [1 ..< Suc (length items)] items)"
    using sized md_post_defined by (auto simp: list_all_iff dest: set_zip_rightD)
  from render_each_defined [OF this] obtain posts_md where
    each: "render_each (md_post lib) (zip [1 ..< Suc (length items)] items) = Inr posts_md"
    by blast
  show ?thesis
    unfolding render_markdown_def assms(1,3) kb
    by (simp only: and_then_def sum.case items each) blast
qed

lemma render_html_raises:
  assumes "ctx (lit ''html_length'') = Some len" and "ctx (lit ''posts'') = Some posts"
    and "\<not> (kb_defined len \<and> posts_defined posts)"
  shows "\<exists>e. render_html lib ctx = Inl e"
proof (cases "kb_defined len")
  case False
  from jinja_kb_raises [OF this] obtain e where "jinja_kb lib (Some len) = Inl e" by blast
  then show ?thesis
    unfolding render_html_def by (simp add: assms(1) and_then_def)
next
  case True
  from jinja_kb_defined [OF this] obtain kb where kb: "jinja_kb lib (Some len) = Inr kb"
    by blast
  from True assms(3) have undefined: "\<not> posts_defined posts" by simp
  show ?thesis
  proof (cases "jinja_slice_items lib (Some posts) 20")
    case (Inl e)
    then show ?thesis
      unfolding render_html_def by (simp add: assms(1,2) kb and_then_def)
  next
    case (Inr items)
    with undefined have "\<not> list_all sliceable items"
      by (cases posts) (auto simp: list_all_iff)
    then have "\<not> list_all (\<lambda>x. \<exists>s. html_post lib x = Inr s) items"
      using html_post_raises [of _ lib] by (fastforce simp: list_all_iff)
    from render_each_raises [OF this] obtain e where
      "render_each (html_post lib) items = Inl e" by blast
    with Inr show ?thesis
      unfolding render_html_def by (simp add: assms(1,2) kb and_then_def)
  qed
qed

text \<open>
  C3, as the claim states it: the JSON object \<open>{"html_length": null}\<close> has the field, so
  no default replaces it, and \<open>None / 1024\<close> in the HTML template raises \<open>TypeError\<close>;
  \<open>generate_reports\<close> then leaves with that exception and has written no report.
\<close>

theorem null_length_counterexample:
  "and_then (add_computed_fields example_date null_length_record)
     (render_kwargs (render_html example_lib)) = Inl TypeError
   \<and> generate_reports example_lib example_date quiet_os
       (empty_fs(latest_file := File (JsonDoc null_length_record)))
     = ((empty_fs(latest_file := File (JsonDoc null_length_record)))(REPORTS_DIR := Dir),
        Inl TypeError)"
proof -
  obtain data where data: "add_computed_fields example_date null_length_record = Inr data"
    by (simp add: null_length_record_def add_computed_fields_JObj)
  note fields = add_computed_fields_fields [OF data [unfolded null_length_record_def]]
  have "data (lit ''self'') = None" and "data (lit ''html_length'') = Some JNull"
    using fields(4,6) by simp_all
  then have render: "render_kwargs (render_html example_lib) data = Inl TypeError"
    by (simp add: render_kwargs_def render_html_def and_then_def)
  have first: "and_then (add_computed_fields example_date null_length_record)
     (render_kwargs (render_html example_lib)) = Inl TypeError"
    by (simp add: data render and_then_def)
  let ?files = "empty_fs(latest_file := File (JsonDoc null_length_record))"
  have "mkdir_exist_ok quiet_os ?files REPORTS_DIR = Inr (?files(REPORTS_DIR := Dir))"
    by (simp add: mkdir_exist_ok_def empty_fs_def REPORTS_DIR_def latest_file_def quiet_os_def)
  moreover have "path_exists quiet_os (?files(REPORTS_DIR := Dir)) latest_file = Inr True"
    by (simp add: path_exists_def REPORTS_DIR_def latest_file_def quiet_os_def)
  moreover have "json_load quiet_os (?files(REPORTS_DIR := Dir)) latest_file
      = Inr null_length_record"
    by (simp add: json_load_def REPORTS_DIR_def latest_file_def quiet_os_def)
  ultimately have "generate_reports example_lib example_date quiet_os ?files
      = (?files(REPORTS_DIR := Dir), Inl TypeError)"
    by (simp add: generate_reports_def and_then_def data render)
  with first show ?thesis by simp
qed

text \<open>
  C3, amended. Rendering returns, for HTML and for Markdown, exactly on the JSON objects
  (the empty one among them) that have no member named \<open>self\<close>, whose \<open>html_length\<close>,
  if present, is a float, a bool or an int below \<open>2 ^ 1034 - 2 ^ 980\<close> in size (so that
  its quotient by 1024 is a float), and whose \<open>posts\<close>, if present, is a string or a
  list with strings or lists as its first 20 entries; on every other JSON object rendering
  the HTML raises. Absent fields are rendered with the defaults \<open>posts = []\<close>,
  \<open>posts_count = 0\<close>, \<open>html_length = 0\<close>, \<open>status = "unknown"\<close>; a field that is
  present keeps its value.
\<close>

theorem rendering_returns_iff_renderable:
  "(renderable (map_of (rev kvs)) \<longrightarrow>
      (\<exists>data html md.
         add_computed_fields date (JObj kvs) = Inr data
         \<and> render_kwargs (render_html lib) data = Inr html
         \<and> render_kwargs (render_markdown lib) data = Inr md
         \<and> data (lit ''posts'')
             = Some (case map_of (rev kvs) (lit ''posts'') of None \<Rightarrow> JArr [] | Some v \<Rightarrow> v)
         \<and> data (lit ''posts_count'')
             = Some (case map_of (rev kvs) (lit ''posts_count'') of
                       None \<Rightarrow> JInt 0 | Some v \<Rightarrow> v)
         \<and> data (lit ''html_length'')
             = Some (case map_of (rev kvs) (lit ''html_length'') of
                       None \<Rightarrow> JInt 0 | Some v \<Rightarrow> v)
         \<and> data (lit ''status'')
             = Some (case map_of (rev kvs) (lit ''status'') of
                       None \<Rightarrow> JStr (lit ''unknown'') | Some v \<Rightarrow> v)))
   \<and> (\<not> renderable (map_of (rev kvs)) \<longrightarrow>
      (\<exists>data e.
         add_computed_fields date (JObj kvs) = Inr data
         \<and> render_kwargs (render_html lib) data = Inl e))"
proof -
  obtain data where data: "add_computed_fields date (JObj kvs) = Inr data"
    by (simp add: add_computed_fields_JObj)
  note fields = add_computed_fields_fields [OF data]
  let ?len = "case map_of (rev kvs) (lit ''html_length'') of None \<Rightarrow> JInt 0 | Some v \<Rightarrow> v"
  let ?posts = "case map_of (rev kvs) (lit ''posts'') of None \<Rightarrow> JArr [] | Some v \<Rightarrow> v"
  have renderable: "renderable (map_of (rev kvs)) \<longleftrightarrow>
      data (lit ''self'') = None \<and> kb_defined ?len \<and> posts_defined ?posts"
    using fields(6) by (auto simp: renderable_def split: option.splits)
  have returns: "\<exists>html md. render_kwargs (render_html lib) data = Inr html
      \<and> render_kwargs (render_markdown lib) data = Inr md"
    if "renderable (map_of (rev kvs))"
  proof -
    from that renderable have self: "data (lit ''self'') = None"
      and len: "kb_defined ?len" and posts: "posts_defined ?posts"
      by simp_all
    from render_html_defined [OF fields(4) len fields(2) posts] obtain html where
      "render_html lib data = Inr html" by blast
    then have html: "render_kwargs (render_html lib) data = Inr html"
      using self by (simp add: render_kwargs_def)
    from render_markdown_defined [OF fields(4) len fields(2) posts] obtain md where
      "render_markdown lib data = Inr md" by blast
    then have "render_kwargs (render_markdown lib) data = Inr md"
      using self by (simp add: render_kwargs_def)
    with html show ?thesis by blast
  qed
  have raises: "\<exists>e. render_kwargs (render_html lib) data = Inl e"
    if "\<not> renderable (map_of (rev kvs))"
  proof (cases "data (lit ''self'') = None")
    case False
    then show ?thesis by (simp add: render_kwargs_def)
  next
    case True
    with that renderable have "\<not> (kb_defined ?len \<and> posts_defined ?posts)" by simp
    from render_html_raises [OF fields(4) fields(2) this] True show ?thesis
      by (simp add: render_kwargs_def)
  qed
  from data returns raises fields(2-5) show ?thesis by blast
qed

theorem rendering_returns_iff_renderable_witness:
  "renderable (map_of (rev []))
   \<and> (\<exists>data html md.
        add_computed_fields example_date (JObj []) = Inr data
        \<and> render_kwargs (render_html example_lib) data = Inr html
        \<and> render_kwargs (render_markdown example_lib) data = Inr md
        \<and> data (lit ''posts'') = Some (JArr [])
        \<and> data (lit ''posts_count'') = Some (JInt 0)
        \<and> data (lit ''html_length'') = Some (JInt 0)
        \<and> data (lit ''status'') = Some (JStr (lit ''unknown'')))
   \<and> renderable (map_of (rev
        [(lit ''html_length'', JInt (- 5)),
         (lit ''posts'', JArr [JStr (lit ''hello''), JArr [JInt 1, JNull]]),
         (lit ''status'', JInt 404)]))
   \<and> (\<exists>data html md.
        add_computed_fields example_date odd_record = Inr data
        \<and> render_kwargs (render_html example_lib) data = Inr html
        \<and> render_kwargs (render_markdown example_lib) data = Inr md
        \<and> data (lit ''posts'') = Some (JArr [JStr (lit ''hello''), JArr [JInt 1, JNull]])
        \<and> data (lit ''posts_count'') = Some (JInt 0)
        \<and> data (lit ''html_length'') = Some (JInt (- 5))
        \<and> data (lit ''status'') = Some (JInt 404))
   \<and> \<not> renderable (map_of (rev [(lit ''posts'', JArr [JObj []])]))
   \<and> (\<exists>data e.
        add_computed_fields example_date (JObj [(lit ''posts'', JArr [JObj []])]) = Inr data
        \<and> render_kwargs (render_html example_lib) data = Inl e)"
proof -
  have empty: "renderable (map_of (rev []))"
    by (simp add: renderable_def)
  have odd: "renderable (map_of (rev
        [(lit ''html_length'', JInt (- 5)),
         (lit ''posts'', JArr [JStr (lit ''hello''), JArr [JInt 1, JNull]]),
         (lit ''status'', JInt 404)]))"
    by (simp add: renderable_def)
  have dict: "\<not> renderable (map_of (rev [(lit ''posts'', JArr [JObj []])]))"
    by (simp add: renderable_def)
  from rendering_returns_iff_renderable [of "[]" example_date example_lib] empty
  have 1: "\<exists>data html md.
        add_computed_fields example_date (JObj []) = Inr data
        \<and> render_kwargs (render_html example_lib) data = Inr html
        \<and> render_kwargs (render_markdown example_lib) data = Inr md
        \<and> data (lit ''posts'') = Some (JArr [])
        \<and> data (lit ''posts_count'') = Some (JInt 0)
        \<and> data (lit ''html_length'') = Some (JInt 0)
        \<and> data (lit ''status'') = Some (JStr (lit ''unknown''))"
    by simp
  from rendering_returns_iff_renderable
    [of "[(lit ''html_length'', JInt (- 5)),
          (lit ''posts'', JArr [JStr (lit ''hello''), JArr [JInt 1, JNull]]),
          (lit ''status'', JInt 404)]" example_date example_lib] odd
  have 2: "\<exists>data html md.
        add_computed_fields example_date odd_record = Inr data
        \<and> render_kwargs (render_html example_lib) data = Inr html
        \<and> render_kwargs (render_markdown example_lib) data = Inr md
        \<and> data (lit ''posts'') = Some (JArr [JStr (lit ''hello''), JArr [JInt 1, JNull]])
        \<and> data (lit ''posts_count'') = Some (JInt 0)
        \<and> data (lit ''html_length'') = Some (JInt (- 5))
        \<and> data (lit ''status'') = Some (JInt 404)"
    unfolding odd_record_def by simp
  from rendering_returns_iff_renderable
    [of "[(lit ''posts'', JArr [JObj []])]" example_date example_lib] dict
  have 3: "\<exists>data e.
        add_computed_fields example_date (JObj [(lit ''posts'', JArr [JObj []])]) = Inr data
        \<and> render_kwargs (render_html example_lib) data = Inl e"
    by blast
  from empty odd dict 1 2 3 show ?thesis by blast
qed

text \<open>The pieces of the example record, as the template shows them.\<close>

lemma kb_2048: "jinja_kb lib (Some (JInt 2048)) = Inr (lit ''2.0'')"
  by (simp add: kb_int_def round_half_even_def str_int_def digits.simps lit_def)

lemma upper_success: "jinja_upper lib (Some (JStr (lit ''success''))) = lit ''SUCCESS''"
  by (simp add: jinja_upper_def jinja_print_def py_upper_def lit_def)

lemma print_one: "jinja_print lib (Some (JInt 1)) = lit ''1''"
  by (simp add: jinja_print_def str_int_def digits.simps lit_def)

lemma html_post_long:
  "html_post lib (JStr (times (lit ''A'') 600)) =
     Inr (html_post_indent @ lit ''<div class=\"post\">'' @ times (lit ''A'') 300 @ lit ''...'' @
          lit ''</div>'' @ html_post_end)"
  by (simp add: html_post_def and_then_def times_A)

text \<open>
  C7. For the example record the HTML report is the template's text around these values:
  the post list holds one post, shown as exactly 300 letters \<open>A\<close> followed by \<open>...\<close>, and
  the page-size card shows \<open>2.0KB\<close>.
\<close>

theorem example_record_html:
  "and_then (add_computed_fields date example_record) (render_kwargs (render_html lib)) =
     Inr (html_head @ date @
          html_style_and_header @ lit ''2024-01-01T00:00:00Z'' @
          html_status_card @ lit ''status-success'' @
          html_status_value @ lit ''SUCCESS'' @
          html_posts_count_card @ lit ''1'' @
          html_page_size_card @ lit ''<div class=\"stat-value\">'' @ lit ''2.0'' @ lit ''KB</div>'' @
          html_posts_section @
          (html_post_indent @ lit ''<div class=\"post\">'' @ times (lit ''A'') 300 @ lit ''...'' @
           lit ''</div>'' @ html_post_end) @
          html_after_posts @
          html_foot)"
proof -
  obtain data where data: "add_computed_fields date example_record = Inr data"
    by (simp add: example_record_def add_computed_fields_JObj)
  note fields = add_computed_fields_fields [OF data [unfolded example_record_def]]
  have ctx: "data (lit ''date'') = Some (JStr date)"
    "data (lit ''posts'') = Some (JArr [JStr (times (lit ''A'') 600)])"
    "data (lit ''posts_count'') = Some (JInt 1)"
    "data (lit ''html_length'') = Some (JInt 2048)"
    "data (lit ''status'') = Some (JStr (lit ''success''))"
    "data (lit ''self'') = None"
    "data (lit ''scraped_at'') = Some (JStr (lit ''2024-01-01T00:00:00Z''))"
    using fields by simp_all
  have "render_html lib data =
     Inr (html_head @ date @
          html_style_and_header @ lit ''2024-01-01T00:00:00Z'' @
          html_status_card @ lit ''status-success'' @
          html_status_value @ lit ''SUCCESS'' @
          html_posts_count_card @ lit ''1'' @
          html_page_size_card @ lit ''<div class=\"stat-value\">'' @ lit ''2.0'' @ lit ''KB</div>'' @
          html_posts_section @
          (html_post_indent @ lit ''<div class=\"post\">'' @ times (lit ''A'') 300 @ lit ''...'' @
           lit ''</div>'' @ html_post_end) @
          html_after_posts @
          html_foot)"
    unfolding render_html_def ctx kb_2048 upper_success print_one
    by (simp add: and_then_def html_post_long jinja_print_def)
  then show ?thesis
    by (simp add: data and_then_def render_kwargs_def ctx)
qed

lemma report_paths [simp]:
  "latest_file \<noteq> REPORTS_DIR" "html_file \<noteq> REPORTS_DIR" "md_file \<noteq> REPORTS_DIR"
  "REPORTS_DIR \<noteq> latest_file" "REPORTS_DIR \<noteq> html_file" "REPORTS_DIR \<noteq> md_file"
  by (simp_all add: latest_file_def REPORTS_DIR_def html_file_def md_file_def)

text \<open>
  C9, as the claim states it: with no \<open>output/latest.json\<close>, but with a regular file named
  \<open>reports\<close> in the working directory, \<open>mkdir\<close> raises \<open>FileExistsError\<close> before the
  input is looked for.
\<close>

theorem reports_is_file_counterexample:
  "reports_is_file_fs latest_file = Absent
   \<and> generate_reports example_lib example_date quiet_os reports_is_file_fs
       = (reports_is_file_fs, Inl FileExistsError)"
  by (simp add: reports_is_file_fs_def empty_fs_def generate_reports_def mkdir_exist_ok_def)

text \<open>What \<open>generate_reports\<close> does after \<open>mkdir\<close> when it finds no input.\<close>

lemma generate_reports_absent_input:
  assumes "files latest_file = Absent"
    and "mkdir_exist_ok sys files REPORTS_DIR = Inr files1"
  shows "generate_reports lib date sys files =
     (files1,
      case os_refuses sys Stat latest_file of
        Some e \<Rightarrow> Inl e
      | None \<Rightarrow> print_line sys no_data_line)"
    and "\<forall>p. p \<noteq> REPORTS_DIR \<longrightarrow> files1 p = files p"
proof -
  from assms(2) show frame: "\<forall>p. p \<noteq> REPORTS_DIR \<longrightarrow> files1 p = files p"
    by (auto simp: mkdir_exist_ok_def split: node.splits option.splits)
  then have "files1 latest_file = Absent"
    using assms(1) by simp
  then show "generate_reports lib date sys files =
     (files1,
      case os_refuses sys Stat latest_file of
        Some e \<Rightarrow> Inl e
      | None \<Rightarrow> print_line sys no_data_line)"
    by (simp add: generate_reports_def assms(2) path_exists_def split: option.splits)
qed

text \<open>
  C9, amended. When \<open>output/latest.json\<close> is not there (\<open>exists()\<close> returns false),
  \<open>reports\<close> is a directory or is missing and can be made, and the line
  \<open>No data file found\<close> can be printed, the Reporter returns without raising and leaves
  the file system as it was but for the directory \<open>reports\<close>: it writes no file.
\<close>

theorem generate_reports_without_input:
  assumes "files latest_file = Absent" and "os_refuses sys Stat latest_file = None"
    and "files REPORTS_DIR = Dir
         \<or> (files REPORTS_DIR = Absent \<and> os_refuses sys Mkdir REPORTS_DIR = None)"
    and "os_stdout sys no_data_line = None"
  shows "snd (generate_reports lib date sys files) = Inr ()
       \<and> fst (generate_reports lib date sys files) = files(REPORTS_DIR := Dir)
       \<and> fst (generate_reports lib date sys files) html_file = files html_file
       \<and> fst (generate_reports lib date sys files) md_file = files md_file"
proof -
  have "mkdir_exist_ok sys files REPORTS_DIR = Inr (files(REPORTS_DIR := Dir))"
    using assms(3) by (auto simp: mkdir_exist_ok_def fun_upd_idem)
  from generate_reports_absent_input(1) [OF assms(1) this, of lib date] assms(2,4)
  show ?thesis by (simp add: print_line_def)
qed

theorem generate_reports_without_input_witness:
  "empty_fs latest_file = Absent
   \<and> os_refuses quiet_os Stat latest_file = None
   \<and> empty_fs REPORTS_DIR = Absent \<and> os_refuses quiet_os Mkdir REPORTS_DIR = None
   \<and> os_stdout quiet_os no_data_line = None
   \<and> snd (generate_reports example_lib example_date quiet_os empty_fs) = Inr ()
   \<and> fst (generate_reports example_lib example_date quiet_os empty_fs)
       = empty_fs(REPORTS_DIR := Dir)
   \<and> fst (generate_reports example_lib example_date quiet_os empty_fs) html_file = Absent
   \<and> fst (generate_reports example_lib example_date quiet_os empty_fs) md_file = Absent"
proof -
  have absent: "empty_fs latest_file = Absent"
    and stat: "os_refuses quiet_os Stat latest_file = None"
    and missing: "empty_fs REPORTS_DIR = Absent \<and> os_refuses quiet_os Mkdir REPORTS_DIR = None"
    and printed: "os_stdout quiet_os no_data_line = None"
    by (simp_all add: empty_fs_def quiet_os_def)
  from generate_reports_without_input
    [where files = empty_fs and sys = quiet_os and lib = example_lib and date = example_date]
    absent stat missing printed
  show ?thesis by (simp add: empty_fs_def)
qed

text \<open>The directory survives whatever \<open>generate_reports\<close> does after \<open>mkdir\<close>.\<close>

lemma write_text_other:
  assumes "write_text sys files p t = Inr files'" and "q \<noteq> p"
  shows "files' q = files q"
  using assms by (auto simp: write_text_def split: node.splits option.splits)

lemma generate_reports_after_mkdir:
  assumes "mkdir_exist_ok sys files REPORTS_DIR = Inr files1"
  shows "fst (generate_reports lib date sys files) REPORTS_DIR = files1 REPORTS_DIR"
proof -
  have two: "files3 REPORTS_DIR = files1 REPORTS_DIR"
    if "write_text sys files1 html_file html = Inr files2"
      and "write_text sys files2 md_file md = Inr files3"
    for html md files2 files3
    using write_text_other [OF that(1), of REPORTS_DIR] write_text_other [OF that(2), of REPORTS_DIR]
    by simp
  have one: "files2 REPORTS_DIR = files1 REPORTS_DIR"
    if "write_text sys files1 html_file html = Inr files2" for html files2
    using write_text_other [OF that, of REPORTS_DIR] by simp
  show ?thesis
    unfolding generate_reports_def assms
    by (auto split: sum.splits dest: one two)
qed

text \<open>
  C10, as the claim states it: \<open>reports\<close> is missing and the system lets no directory be
  made; \<open>mkdir\<close> raises \<open>PermissionError\<close> and the directory is missing afterwards too.
\<close>

theorem reports_not_made_counterexample:
  "empty_fs REPORTS_DIR = Absent
   \<and> generate_reports example_lib example_date read_only_os empty_fs
       = (empty_fs, Inl PermissionError)
   \<and> fst (generate_reports example_lib example_date read_only_os empty_fs) REPORTS_DIR \<noteq> Dir"
  by (simp add: empty_fs_def generate_reports_def mkdir_exist_ok_def read_only_os_def)

text \<open>
  C10, amended. On every invocation \<open>mkdir\<close> of \<open>reports\<close> comes first. If the directory
  is missing and the system lets it be made, it is there afterwards, whether or not
  \<open>output/latest.json\<close> is there and whatever fails later; if \<open>mkdir\<close> raises, that
  exception leaves the Reporter, which has then done nothing else. When
  \<open>output/latest.json\<close> is absent, nothing in the file system but \<open>reports\<close> is
  touched.
\<close>

theorem generate_reports_makes_directory:
  "(files REPORTS_DIR = Absent \<and> os_refuses sys Mkdir REPORTS_DIR = None \<longrightarrow>
      fst (generate_reports lib date sys files) REPORTS_DIR = Dir)
   \<and> (\<forall>e. mkdir_exist_ok sys files REPORTS_DIR = Inl e \<longrightarrow>
        generate_reports lib date sys files = (files, Inl e))
   \<and> (files latest_file = Absent \<longrightarrow>
        (\<forall>p. p \<noteq> REPORTS_DIR \<longrightarrow> fst (generate_reports lib date sys files) p = files p))"
proof (intro conjI impI allI)
  assume "files REPORTS_DIR = Absent \<and> os_refuses sys Mkdir REPORTS_DIR = None"
  then have "mkdir_exist_ok sys files REPORTS_DIR = Inr (files(REPORTS_DIR := Dir))"
    by (simp add: mkdir_exist_ok_def)
  from generate_reports_after_mkdir [OF this]
  show "fst (generate_reports lib date sys files) REPORTS_DIR = Dir" by simp
next
  fix e
  assume "mkdir_exist_ok sys files REPORTS_DIR = Inl e"
  then show "generate_reports lib date sys files = (files, Inl e)"
    by (simp add: generate_reports_def)
next
  fix p
  assume absent: "files latest_file = Absent" and p: "p \<noteq> REPORTS_DIR"
  show "fst (generate_reports lib date sys files) p = files p"
  proof (cases "mkdir_exist_ok sys files REPORTS_DIR")
    case (Inl e)
    then show ?thesis by (simp add: generate_reports_def)
  next
    case (Inr files1)
    from generate_reports_absent_input(1) [OF absent this, of lib date]
      generate_reports_absent_input(2) [OF absent this] p
    show ?thesis by simp
  qed
qed

theorem generate_reports_makes_directory_witness:
  "empty_fs REPORTS_DIR = Absent \<and> os_refuses quiet_os Mkdir REPORTS_DIR = None
   \<and> empty_fs latest_file = Absent
   \<and> fst (generate_reports example_lib example_date quiet_os empty_fs) REPORTS_DIR = Dir
   \<and> html_file \<noteq> REPORTS_DIR
   \<and> fst (generate_reports example_lib example_date quiet_os empty_fs) html_file
       = empty_fs html_file
   \<and> (empty_fs(latest_file := File (JsonDoc example_record))) REPORTS_DIR = Absent
   \<and> fst (generate_reports example_lib example_date quiet_os
             (empty_fs(latest_file := File (JsonDoc example_record)))) REPORTS_DIR = Dir
   \<and> mkdir_exist_ok quiet_os reports_is_file_fs REPORTS_DIR = Inl FileExistsError
   \<and> generate_reports example_lib example_date quiet_os reports_is_file_fs
       = (reports_is_file_fs, Inl FileExistsError)"
proof -
  have missing: "empty_fs REPORTS_DIR = Absent \<and> os_refuses quiet_os Mkdir REPORTS_DIR = None"
    and absent: "empty_fs latest_file = Absent"
    and missing': "(empty_fs(latest_file := File (JsonDoc example_record))) REPORTS_DIR = Absent"
    and refused: "mkdir_exist_ok quiet_os reports_is_file_fs REPORTS_DIR = Inl FileExistsError"
    by (simp_all add: empty_fs_def quiet_os_def mkdir_exist_ok_def reports_is_file_fs_def)
  note made = generate_reports_makes_directory
    [where files = empty_fs and sys = quiet_os and lib = example_lib and date = example_date]
  note made' = generate_reports_makes_directory
    [where files = "empty_fs(latest_file := File (JsonDoc example_record))" and sys = quiet_os
      and lib = example_lib and date = example_date]
  note made'' = generate_reports_makes_directory
    [where files = reports_is_file_fs and sys = quiet_os and lib = example_lib
      and date = example_date]
  from made missing absent
  have "fst (generate_reports example_lib example_date quiet_os empty_fs) REPORTS_DIR = Dir"
    and "fst (generate_reports example_lib example_date quiet_os empty_fs) html_file
      = empty_fs html_file"
    by simp_all
  moreover from made' missing missing'
  have "fst (generate_reports example_lib example_date quiet_os
          (empty_fs(latest_file := File (JsonDoc example_record)))) REPORTS_DIR = Dir"
    by blast
  moreover from made'' refused
  have "generate_reports example_lib example_date quiet_os reports_is_file_fs
       = (reports_is_file_fs, Inl FileExistsError)"
    by blast
  ultimately show ?thesis using missing absent missing' refused by simp
qed

end
